theory Spec2Isabelle
  imports Main "HOL-Library.Char_ord" "HOL-Library.List_Lexorder"
begin

section \<open>Junction: the multisig wallet coordinator (junction.py)\<close>

text \<open>
  A shallow embedding of the class \<open>MultisigWallet\<close>. The wallet object is a record;
  a method that mutates it takes the world (the object, the data directory and the
  import requests the node has taken) and returns its outcome with the world it leaves
  behind, also when it raises: Python keeps the assignments made before an exception.
  The Bitcoin Core node, the clock and the PSBT library are collaborators outside the
  repository; their answers are the fields of a record of functions, so that every
  theorem holds whatever they answer.
\<close>

subsection \<open>Exceptions\<close>

text \<open>
  What an RPC call can raise: \<open>JSONRPCException\<close> (the node answered with an error), or
  anything else (no connection, a timeout). \<open>ensure_watchonly\<close> tells them apart.
\<close>

datatype rpc_failure = JSONRPC string | Transport string

datatype exn =
    JunctionError string
  | JSONRPCException string
  | ConnectionError string
  | AssertionError string
  | AttributeError string
  | IndexError string
  | DeserializeError string

fun raise_rpc :: "rpc_failure \<Rightarrow> exn" where
  "raise_rpc (JSONRPC msg) = JSONRPCException msg"
| "raise_rpc (Transport msg) = ConnectionError msg"

fun rpc_message :: "rpc_failure \<Rightarrow> string" where
  "rpc_message (JSONRPC msg) = msg"
| "rpc_message (Transport msg) = msg"

subsection \<open>Formatting\<close>

text \<open>\<open>str\<close> of a Python \<open>int\<close>, as an f-string renders it, and \<open>sep.join(xs)\<close>.\<close>

fun str_nat :: "nat \<Rightarrow> string" where
  "str_nat k = (if k < 10 then [''0123456789'' ! k]
                else str_nat (k div 10) @ [''0123456789'' ! (k mod 10)])"

declare str_nat.simps [simp del]

definition str_int :: "int \<Rightarrow> string" where
  "str_int i = (if i < 0 then ''-'' @ str_nat (nat (- i)) else str_nat (nat i))"

fun join :: "string \<Rightarrow> string list \<Rightarrow> string" where
  "join sep [] = []"
| "join sep [x] = x"
| "join sep (x # y # ys) = x @ sep @ join sep (y # ys)"

subsection \<open>Data\<close>

text \<open>
  A signer is the dictionary \<open>add_signer\<close> appends; its key \<open>name\<close> is the field
  \<open>signer_name\<close> here, the wallet having a \<open>name\<close> of its own.
\<close>

record signer =
  signer_name :: string
  fingerprint :: string
  xpub :: string
  derivation_path :: string

text \<open>
  The part of hwilib's \<open>PSBT\<close> object the wallet reads: the inputs, each with its
  dictionary of partial signatures (public key to signature). \<open>PSBT()\<close> is the empty
  object. Serialisation is the library's, see \<open>psbt_serialize\<close> below.
\<close>

record psbt_input =
  partial_sigs :: "string \<rightharpoonup> string"

record psbt =
  tx :: string
  inputs :: "psbt_input list"

definition PSBT :: psbt where
  "PSBT = \<lparr>tx = [], inputs = []\<rparr>"

record wallet =
  name :: string
  m :: int
  n :: int
  signers :: "signer list"
  psbt :: "psbt option"
  address_index :: int
  export_index :: int

text \<open>The dictionary \<open>to_dict\<close> builds and \<open>write_json_file\<close> stores.\<close>

record wallet_dict =
  d_name :: string
  d_m :: int
  d_n :: int
  d_signers :: "signer list"
  d_psbt :: string
  d_address_index :: int
  d_export_index :: int

text \<open>One element of the list handed to \<open>importmulti\<close>.\<close>

record import_request =
  desc :: string
  timestamp :: int
  range :: "int \<times> int"
  watchonly :: bool
  keypool :: bool
  internal :: bool

record addressinfo =
  iswatchonly :: bool
  pubkeys :: "string list"

record 'a watchonly_balances =
  untrusted_pending :: 'a
  trusted :: 'a

record 'a unspent =
  confirmations :: int
  amount :: 'a

text \<open>
  The collaborators. Each RPC is a function from the request to the answer or the
  failure (the answer to a request does not depend on the calls made before it), and
  an answer is the record of the fields the wallet reads from it:
  \<open>getdescriptorinfo\<close> gives the field \<open>descriptor\<close>, \<open>walletcreatefundedpsbt\<close> the
  field \<open>psbt\<close>, \<open>getbalances\<close> the \<open>watchonly\<close> section if there is one. \<open>now\<close> is
  \<open>int(time.time())\<close>; \<open>full_path\<close> is the function of that name of disk.py; the last
  two are hwilib's \<open>PSBT.serialize\<close> and \<open>PSBT.deserialize\<close>. Amounts are of any type
  \<open>'a\<close> that has \<open>0\<close> and \<open>+\<close>.
\<close>

record 'a env =
  listwallets :: "rpc_failure + string list"
  loadwallet :: "string \<Rightarrow> rpc_failure + unit"
  createwallet :: "string \<Rightarrow> bool \<Rightarrow> rpc_failure + unit"
  getdescriptorinfo :: "string \<Rightarrow> rpc_failure + string"
  deriveaddresses :: "string \<Rightarrow> int \<times> int \<Rightarrow> rpc_failure + string list"
  getaddressinfo :: "string \<Rightarrow> rpc_failure + addressinfo"
  importmulti :: "import_request list \<Rightarrow> rpc_failure + unit"
  walletcreatefundedpsbt :: "string \<Rightarrow> int \<Rightarrow> string \<Rightarrow> rpc_failure + string"
  getbalances :: "rpc_failure + 'a watchonly_balances option"
  listunspent :: "int \<Rightarrow> int \<Rightarrow> string list \<Rightarrow> bool \<Rightarrow> rpc_failure + 'a unspent list"
  now :: int
  full_path :: "string \<Rightarrow> string"
  psbt_serialize :: "psbt \<Rightarrow> string"
  psbt_deserialize :: "string \<Rightarrow> string + psbt"

text \<open>
  The world a method runs in: the data directory, the import requests the node has
  taken so far, oldest first, and the object itself.

  Modelled from the spec: \<open>write_json_file\<close> of disk.py is not among the sources. The
  specification treats persistence as a key-value load and save, one record per wallet,
  the full snapshot written over the old one; the data directory is the map from the
  relative path to the record stored there.
\<close>

record store =
  disk :: "string \<rightharpoonup> wallet_dict"
  imported :: "import_request list"

record world = store +
  wallet :: wallet

definition ADDRESS_CHUNK :: int where
  "ADDRESS_CHUNK = 100"

subsection \<open>Readiness, persistence\<close>

definition ready :: "wallet \<Rightarrow> bool" where
  "ready wl = (int (length (signers wl)) = n wl)"

definition wallet_file_path :: "wallet \<Rightarrow> string" where
  "wallet_file_path wl = ''wallets/'' @ name wl @ ''.json''"

definition to_dict :: "'a env \<Rightarrow> wallet \<Rightarrow> wallet_dict" where
  "to_dict ev wl =
     \<lparr>d_name = name wl, d_m = m wl, d_n = n wl, d_signers = signers wl,
      d_psbt = (case psbt wl of Some p \<Rightarrow> psbt_serialize ev p | None \<Rightarrow> []),
      d_address_index = address_index wl, d_export_index = export_index wl\<rparr>"

definition save :: "'a env \<Rightarrow> world \<Rightarrow> world" where
  "save ev w = w\<lparr>disk := (disk w)(wallet_file_path (wallet w) \<mapsto> to_dict ev (wallet w))\<rparr>"

subsection \<open>The descriptor\<close>

text \<open>
  \<open>descriptor_raw\<close> is the value of the local variable \<open>descriptor\<close> of the method
  \<open>descriptor\<close>, the string sent to the node; the method returns the node's answer.
\<close>

definition descriptor_raw :: "wallet \<Rightarrow> string" where
  "descriptor_raw wl =
     (let path_prefix = ''/44h/1h/0h'';
          path_suffix = ''/0/*'';
          xpubs = map (\<lambda>signer. ''['' @ fingerprint signer @ path_prefix @ '']''
                                 @ xpub signer @ path_suffix) (signers wl);
          xpubs = join '','' xpubs
      in ''sh(multi('' @ str_int (m wl) @ '','' @ xpubs @ ''))'')"

definition descriptor :: "'a env \<Rightarrow> wallet \<Rightarrow> exn + string" where
  "descriptor ev wl =
     (case getdescriptorinfo ev (descriptor_raw wl) of
        Inl e \<Rightarrow> Inl (raise_rpc e)
      | Inr r \<Rightarrow> Inr r)"

subsection \<open>The export cycle\<close>

definition export_watchonly :: "'a env \<Rightarrow> world \<Rightarrow> (exn + unit) \<times> world" where
  "export_watchonly ev w =
     (let new_export_index = export_index (wallet w) + ADDRESS_CHUNK in
      case descriptor ev (wallet w) of
        Inl e \<Rightarrow> (Inl e, w)
      | Inr d \<Rightarrow>
          (let request = \<lparr>desc = d, timestamp = now ev - 60 * 60 * 24,
                          range = (export_index (wallet w), new_export_index),
                          watchonly = True, keypool = False, internal = False\<rparr>
           in case importmulti ev [request] of
                Inl e \<Rightarrow> (Inl (raise_rpc e), w)
              | Inr _ \<Rightarrow>
                  (Inr (), save ev (w\<lparr>imported := imported w @ [request],
                                      wallet := (wallet w)\<lparr>export_index := new_export_index\<rparr>\<rparr>))))"

subsection \<open>Address allocation\<close>

text \<open>
  \<open>address\<close> calls itself when the public keys of the derived address are not sorted,
  with nothing in the code that bounds the number of calls: it is a partial function,
  \<open>None\<close> where the recursion never ends. The interpreter's recursion limit is not
  modelled: a run with more retries than that limit allows returns here and ends in
  \<open>RecursionError\<close> in Python, so the calls that succeed in Python are among those
  that succeed here.
\<close>

partial_function (option) address :: "'a env \<Rightarrow> world \<Rightarrow> ((exn + string) \<times> world) option" where
  "address ev w =
     (if \<not> ready (wallet w) then
        Some (Inl (JunctionError (str_int (n (wallet w)) @ '' signers required, ''
                     @ str_int (int (length (signers (wallet w)))) @ '' registered'')), w)
      else
        case (if address_index (wallet w) > export_index (wallet w)
              then export_watchonly ev w else (Inr (), w)) of
          (Inl e, w1) \<Rightarrow> Some (Inl e, w1)
        | (Inr _, w1) \<Rightarrow>
            (case descriptor ev (wallet w1) of
               Inl e \<Rightarrow> Some (Inl e, w1)
             | Inr d \<Rightarrow>
                 (case deriveaddresses ev d (address_index (wallet w1), address_index (wallet w1) + 1) of
                    Inl e \<Rightarrow> Some (Inl (raise_rpc e), w1)
                  | Inr [] \<Rightarrow> Some (Inl (IndexError ''list index out of range''), w1)
                  | Inr (a # _) \<Rightarrow>
                      (let w2 = w1\<lparr>wallet := (wallet w1)\<lparr>address_index := address_index (wallet w1) + 1\<rparr>\<rparr>
                       in case getaddressinfo ev a of
                            Inl e \<Rightarrow> Some (Inl (raise_rpc e), w2)
                          | Inr ai \<Rightarrow>
                              if \<not> iswatchonly ai then
                                Some (Inl (AssertionError ''Bitcoin Core gave us non-watch-only address''), w2)
                              else if pubkeys ai \<noteq> sort (pubkeys ai) then address ev w2
                              else Some (Inr a, save ev w2)))))"

subsection \<open>Creation\<close>

definition watchonly_name :: "wallet \<Rightarrow> string" where
  "watchonly_name wl = name wl"

text \<open>
  \<open>ensure_watchonly\<close> catches every exception of \<open>listwallets\<close>, and only
  \<open>JSONRPCException\<close> of \<open>loadwallet\<close> and \<open>createwallet\<close>.
\<close>

definition ensure_watchonly :: "'a env \<Rightarrow> wallet \<Rightarrow> exn + unit" where
  "ensure_watchonly ev wl =
     (let watch_only_name = watchonly_name wl in
      case listwallets ev of
        Inl e \<Rightarrow> Inl (JunctionError (rpc_message e))
      | Inr bitcoin_wallets \<Rightarrow>
          if watch_only_name \<notin> set bitcoin_wallets then
            (case loadwallet ev watch_only_name of
               Inr _ \<Rightarrow> Inr ()
             | Inl (Transport msg) \<Rightarrow> Inl (ConnectionError msg)
             | Inl (JSONRPC _) \<Rightarrow>
                 (case createwallet ev watch_only_name True of
                    Inr _ \<Rightarrow> Inr ()
                  | Inl (Transport msg) \<Rightarrow> Inl (ConnectionError msg)
                  | Inl (JSONRPC _) \<Rightarrow>
                      Inl (JunctionError ''Couldn't establish watch-only Bitcoin Core wallet'')))
          else Inr ())"

text \<open>
  \<open>create\<close> is a class method: it takes the store, and returns the new object or the
  exception, with the store it leaves. \<open>os.path.exists\<close> looks the relative path up in
  the data directory; \<open>ensure_datadir\<close>, which makes that directory, writes no wallet
  file and has no part here.
\<close>

definition create :: "'a env \<Rightarrow> store \<Rightarrow> string \<Rightarrow> int \<Rightarrow> int \<Rightarrow> (exn + wallet) \<times> store" where
  \<open>create ev st name' m' n' =
     (if m' > n' then
        (Inl (JunctionError (''"m" ('' @ str_int m' @ '') must be no larger than "n" (''
                               @ str_int n' @ '')'')), st)
      else if m' < 1 then
        (Inl (JunctionError (''"m" ('' @ str_int m' @ '') must be larger than 0'')), st)
      else if n' > 5 then
        (Inl (JunctionError (''"n" ('' @ str_int n' @ '') cannot exceed 5'')), st)
      else
        let wl = \<lparr>name = name', m = m', n = n', signers = [], psbt = None,
                  address_index = 0, export_index = 0\<rparr>;
            wallet_file_path = full_path ev (''wallets/'' @ name' @ ''.json'')
        in if disk st (''wallets/'' @ name' @ ''.json'') \<noteq> None then
             (Inl (JunctionError (''"'' @ wallet_file_path @ ''" wallet file already exists'')), st)
           else
             case ensure_watchonly ev wl of
               Inl e \<Rightarrow> (Inl e, st)
             | Inr _ \<Rightarrow>
                 (let w = save ev \<lparr>disk = disk st, imported = imported st, wallet = wl\<rparr>
                  in (Inr (wallet w), \<lparr>disk = disk w, imported = imported w\<rparr>)))\<close>

subsection \<open>Signers\<close>

definition add_signer ::
  "'a env \<Rightarrow> world \<Rightarrow> string \<Rightarrow> string \<Rightarrow> string \<Rightarrow> string \<Rightarrow> (exn + unit) \<times> world" where
  \<open>add_signer ev w name' fingerprint' xpub' derivation_path' =
     (if ready (wallet w) then
        (Inl (JunctionError (''Already have '' @ str_int (int (length (signers (wallet w))))
                               @ '' of '' @ str_int (n (wallet w)) @ '' required signers'')), w)
      else if name' \<in> set (map signer_name (signers (wallet w))) then
        (Inl (JunctionError (''Name "'' @ name' @ ''" already taken'')), w)
      else if fingerprint' \<in> set (map fingerprint (signers (wallet w))) then
        (Inl (JunctionError (''Fingerprint "'' @ fingerprint' @ ''" already used'')), w)
      else
        let w1 = w\<lparr>wallet := (wallet w)\<lparr>signers := signers (wallet w) @
                   [\<lparr>signer_name = name', fingerprint = fingerprint', xpub = xpub',
                     derivation_path = derivation_path'\<rparr>]\<rparr>\<rparr>
        in case (if ready (wallet w1) then export_watchonly ev w1 else (Inr (), w1)) of
             (Inl e, w2) \<Rightarrow> (Inl e, w2)
           | (Inr _, w2) \<Rightarrow> (Inr (), save ev w2))\<close>

subsection \<open>The PSBT\<close>

text \<open>
  \<open>create_psbt\<close> assigns a new \<open>PSBT()\<close> before it deserialises into it, so a
  failed deserialisation leaves that object in the wallet (the empty one here).
  \<open>sat_to_btc\<close> belongs to utils.py; the request carries the amount in satoshis here.
  \<open>if self.psbt\<close> is the test for \<open>None\<close>: a \<open>PSBT\<close> object is always true.
\<close>

definition create_psbt ::
  "'a env \<Rightarrow> world \<Rightarrow> string \<Rightarrow> int \<Rightarrow> ((exn + unit) \<times> world) option" where
  "create_psbt ev w recipient satoshis =
     (if psbt (wallet w) \<noteq> None then Some (Inl (JunctionError ''PSBT already present''), w)
      else
        case address ev w of
          None \<Rightarrow> None
        | Some (Inl e, w1) \<Rightarrow> Some (Inl e, w1)
        | Some (Inr change_address, w1) \<Rightarrow>
            (case walletcreatefundedpsbt ev recipient satoshis change_address of
               Inl e \<Rightarrow> Some (Inl (raise_rpc e), w1)
             | Inr raw_psbt \<Rightarrow>
                 (case psbt_deserialize ev raw_psbt of
                    Inl msg \<Rightarrow>
                      Some (Inl (DeserializeError msg), w1\<lparr>wallet := (wallet w1)\<lparr>psbt := Some PSBT\<rparr>\<rparr>)
                  | Inr p \<Rightarrow>
                      Some (Inr (), save ev (w1\<lparr>wallet := (wallet w1)\<lparr>psbt := Some p\<rparr>\<rparr>)))))"

definition remove_psbt :: "world \<Rightarrow> world" where
  "remove_psbt w = w\<lparr>wallet := (wallet w)\<lparr>psbt := None\<rparr>\<rparr>"

text \<open>
  \<open>signing_complete\<close> reads \<open>self.psbt.inputs[0].partial_sigs\<close>: an attribute of
  \<open>None\<close> when there is no PSBT, element 0 of a list that may be empty.
\<close>

definition signing_complete :: "wallet \<Rightarrow> exn + bool" where
  "signing_complete wl =
     (case psbt wl of
        None \<Rightarrow> Inl (AttributeError ''NoneType object has no attribute inputs'')
      | Some p \<Rightarrow>
          (case inputs p of
             [] \<Rightarrow> Inl (IndexError ''list index out of range'')
           | i # _ \<Rightarrow> Inr (m wl = int (card (dom (partial_sigs i))))))"

subsection \<open>Balances\<close>

text \<open>
  The loop of the fallback, over the unspent outputs in the order the node lists them;
  the pair is \<open>(unconfirmed_balance, confirmed_balance)\<close>.
\<close>

fun count_unspent :: "'a::plus unspent list \<Rightarrow> 'a \<times> 'a \<Rightarrow> 'a \<times> 'a" where
  "count_unspent [] (unconfirmed_balance, confirmed_balance) =
     (unconfirmed_balance, confirmed_balance)"
| "count_unspent (u # us) (unconfirmed_balance, confirmed_balance) =
     (if confirmations u > 0
      then count_unspent us (unconfirmed_balance, confirmed_balance + amount u)
      else count_unspent us (unconfirmed_balance + amount u, confirmed_balance))"

text \<open>
  The bare \<open>except\<close> takes every failure of \<open>getbalances\<close>; a failure of
  \<open>listunspent\<close> inside the handler is raised to the caller. \<open>listunspent\<close> is
  called with \<open>(0, 9999999, [], True)\<close>: from 0 confirmations up, every address,
  unsafe outputs included.
\<close>

definition balances :: "'a::{zero,plus} env \<Rightarrow> exn + 'a \<times> 'a" where
  "balances ev =
     (case getbalances ev of
        Inr (Some section) \<Rightarrow> Inr (untrusted_pending section, trusted section)
      | Inr None \<Rightarrow> Inr (0, 0)
      | Inl _ \<Rightarrow>
          (case listunspent ev 0 9999999 [] True of
             Inl e \<Rightarrow> Inl (raise_rpc e)
           | Inr unspent \<Rightarrow> Inr (count_unspent unspent (0, 0))))"

subsection \<open>Operations as values\<close>

text \<open>
  The public methods that change the wallet, the store or the node, as one step
  function, so that a property of every operation is a property of \<open>perform\<close>.
\<close>

datatype operation =
    Add_signer string string string string
  | Address
  | Export_watchonly
  | Create_psbt string int
  | Remove_psbt
  | Save

fun perform :: "'a env \<Rightarrow> operation \<Rightarrow> world \<Rightarrow> ((exn + unit) \<times> world) option" where
  "perform ev (Add_signer name' fingerprint' xpub' derivation_path') w =
     Some (add_signer ev w name' fingerprint' xpub' derivation_path')"
| "perform ev Address w =
     (case address ev w of
        None \<Rightarrow> None
      | Some (Inl e, w') \<Rightarrow> Some (Inl e, w')
      | Some (Inr _, w') \<Rightarrow> Some (Inr (), w'))"
| "perform ev Export_watchonly w = Some (export_watchonly ev w)"
| "perform ev (Create_psbt recipient satoshis) w = create_psbt ev w recipient satoshis"
| "perform ev Remove_psbt w = Some (Inr (), remove_psbt w)"
| "perform ev Save w = Some (Inr (), save ev w)"

subsection \<open>Notions the properties are stated with\<close>

text \<open>
  The candidate at index \<open>i\<close>: the first address the node derives from the wallet's
  descriptor for the range \<open>[i, i + 1]\<close>, with the public keys the node reports for it,
  provided every call succeeds and the address is watch-only. \<open>address\<close> skips a
  candidate whose keys are not sorted and accepts one whose keys are.
\<close>

definition probe :: "'a env \<Rightarrow> wallet \<Rightarrow> int \<Rightarrow> (string \<times> string list) option" where
  "probe ev wl i =
     (case descriptor ev wl of
        Inl _ \<Rightarrow> None
      | Inr d \<Rightarrow>
          (case deriveaddresses ev d (i, i + 1) of
             Inr (a # _) \<Rightarrow>
               (case getaddressinfo ev a of
                  Inr ai \<Rightarrow> if iswatchonly ai then Some (a, pubkeys ai) else None
                | Inl _ \<Rightarrow> None)
           | _ \<Rightarrow> None))"

definition skipped :: "'a env \<Rightarrow> wallet \<Rightarrow> int \<Rightarrow> bool" where
  "skipped ev wl i =
     (case probe ev wl i of Some (a, keys) \<Rightarrow> keys \<noteq> sort keys | None \<Rightarrow> False)"

definition accepted :: "'a env \<Rightarrow> wallet \<Rightarrow> int \<Rightarrow> string \<Rightarrow> bool" where
  "accepted ev wl i a =
     (case probe ev wl i of Some (a', keys) \<Rightarrow> a' = a \<and> keys = sort keys | None \<Rightarrow> False)"

text \<open>
  \<open>advanced ev w a w' k\<close>: from \<open>w\<close>, the allocation skipped the \<open>k\<close> candidates at
  \<open>address_index\<close>, ..., \<open>address_index + k - 1\<close>, accepted \<open>a\<close> at \<open>address_index + k\<close>
  and left the index behind it.
\<close>

definition advanced :: "'a env \<Rightarrow> world \<Rightarrow> string \<Rightarrow> world \<Rightarrow> nat \<Rightarrow> bool" where
  "advanced ev w a w' k =
     (address_index (wallet w') = address_index (wallet w) + 1 + int k
      \<and> (\<forall>j<k. skipped ev (wallet w) (address_index (wallet w) + int j))
      \<and> accepted ev (wallet w) (address_index (wallet w) + int k) a
      \<and> m (wallet w') = m (wallet w) \<and> signers (wallet w') = signers (wallet w))"

text \<open>
  \<open>chunked w w' reqs\<close>: between \<open>w\<close> and \<open>w'\<close> the node took the import requests
  \<open>reqs\<close>, and \<open>export_index\<close> grew by one chunk for each of them.
\<close>

definition chunked :: "world \<Rightarrow> world \<Rightarrow> import_request list \<Rightarrow> bool" where
  "chunked w w' reqs =
     (imported w' = imported w @ reqs
      \<and> export_index (wallet w') = export_index (wallet w) + ADDRESS_CHUNK * int (length reqs))"

text \<open>
  The request of one export cycle for the checksummed descriptor \<open>d\<close>, and the world
  after the cycle.
\<close>

definition export_request :: "'a env \<Rightarrow> world \<Rightarrow> string \<Rightarrow> import_request" where
  "export_request ev w d =
     \<lparr>desc = d, timestamp = now ev - 86400,
      range = (export_index (wallet w), export_index (wallet w) + 100),
      watchonly = True, keypool = False, internal = False\<rparr>"

definition exported :: "'a env \<Rightarrow> world \<Rightarrow> string \<Rightarrow> world" where
  "exported ev w d =
     save ev (w\<lparr>imported := imported w @ [export_request ev w d],
               wallet := (wallet w)\<lparr>export_index := export_index (wallet w) + 100\<rparr>\<rparr>)"

text \<open>
  One pass through the body of \<open>address\<close>: its outcome, or the world the recursive call
  starts from. \<open>address_unfold\<close> below ties it to \<open>address\<close>.
\<close>

definition before_probe :: "'a env \<Rightarrow> world \<Rightarrow> (exn + unit) \<times> world" where
  "before_probe ev w =
     (if address_index (wallet w) > export_index (wallet w)
      then export_watchonly ev w else (Inr (), w))"

definition bump :: "world \<Rightarrow> world" where
  "bump w = w\<lparr>wallet := (wallet w)\<lparr>address_index := address_index (wallet w) + 1\<rparr>\<rparr>"

definition address_pass :: "'a env \<Rightarrow> world \<Rightarrow> ((exn + string) \<times> world) + world" where
  "address_pass ev w =
     (if \<not> ready (wallet w) then
        Inl (Inl (JunctionError (str_int (n (wallet w)) @ '' signers required, ''
                     @ str_int (int (length (signers (wallet w)))) @ '' registered'')), w)
      else
        case (if address_index (wallet w) > export_index (wallet w)
              then export_watchonly ev w else (Inr (), w)) of
          (Inl e, w1) \<Rightarrow> Inl (Inl e, w1)
        | (Inr _, w1) \<Rightarrow>
            (case descriptor ev (wallet w1) of
               Inl e \<Rightarrow> Inl (Inl e, w1)
             | Inr d \<Rightarrow>
                 (case deriveaddresses ev d (address_index (wallet w1), address_index (wallet w1) + 1) of
                    Inl e \<Rightarrow> Inl (Inl (raise_rpc e), w1)
                  | Inr [] \<Rightarrow> Inl (Inl (IndexError ''list index out of range''), w1)
                  | Inr (a # _) \<Rightarrow>
                      (let w2 = w1\<lparr>wallet := (wallet w1)\<lparr>address_index := address_index (wallet w1) + 1\<rparr>\<rparr>
                       in case getaddressinfo ev a of
                            Inl e \<Rightarrow> Inl (Inl (raise_rpc e), w2)
                          | Inr ai \<Rightarrow>
                              if \<not> iswatchonly ai then
                                Inl (Inl (AssertionError ''Bitcoin Core gave us non-watch-only address''), w2)
                              else if pubkeys ai \<noteq> sort (pubkeys ai) then Inr w2
                              else Inl (Inr a, save ev w2)))))"

text \<open>
  The indices a range argument \<open>[begin, end]\<close> names to the node: both ends belong to
  it. This is the node's convention, not the wallet's code; the wallet relies on it
  where it asks for the range \<open>[address_index, address_index + 1]\<close> to take the first
  of the addresses, and where it keeps \<open>export_index\<close> as the highest exported index.
\<close>

definition range_indices :: "int \<times> int \<Rightarrow> int list" where
  "range_indices r = [fst r..snd r]"

text \<open>
  The raw descriptor as the specification writes it,
  \<^verbatim>\<open>sh(multi(M, [FINGERPRINT/44'/1'/0']XPUB/0/*, ...))\<close>, to compare with \<open>descriptor_raw\<close>.
\<close>

definition spec_descriptor_raw :: "wallet \<Rightarrow> string" where
  "spec_descriptor_raw wl =
     ''sh(multi('' @ str_int (m wl) @ '', '' @
       join '', '' (map (\<lambda>signer. ''['' @ fingerprint signer
                          @ ''/44'' @ [CHR 0x27] @ ''/1'' @ [CHR 0x27] @ ''/0'' @ [CHR 0x27] @ '']''
                          @ xpub signer @ ''/0/*'') (signers wl)) @ ''))''"

subsection \<open>Sample data\<close>

text \<open>
  A node that answers every call, finds the keys of the address at index 0 unsorted and
  those of every other address sorted, has no \<open>getbalances\<close> and lists two unspent
  outputs; two signers; a ready 2-of-2 wallet and a 2-of-3 wallet still waiting for its
  third signer.
\<close>

definition sample_env :: "int env" where
  "sample_env =
     \<lparr>listwallets = Inr [],
      loadwallet = (\<lambda>_. Inl (JSONRPC ''Wallet file not found'')),
      createwallet = (\<lambda>_ _. Inr ()),
      getdescriptorinfo = (\<lambda>d. Inr (d @ ''#checksum'')),
      deriveaddresses = (\<lambda>d (b, e). Inr (map (\<lambda>i. ''addr'' @ str_int i) [b..e])),
      getaddressinfo = (\<lambda>a. Inr \<lparr>iswatchonly = True,
                                   pubkeys = (if a = ''addr0'' then [''03b'', ''02a'']
                                              else [''02a'', ''03b''])\<rparr>),
      importmulti = (\<lambda>_. Inr ()),
      walletcreatefundedpsbt = (\<lambda>_ _ _. Inr ''cHNidP8B''),
      getbalances = Inl (JSONRPC ''Method not found''),
      listunspent = (\<lambda>_ _ _ _. Inr [\<lparr>confirmations = 0, amount = 5\<rparr>,
                                      \<lparr>confirmations = 3, amount = 7\<rparr>]),
      now = 1600000000,
      full_path = (\<lambda>p. ''/data/'' @ p),
      psbt_serialize = tx,
      psbt_deserialize = (\<lambda>s. Inr \<lparr>tx = s, inputs = [\<lparr>partial_sigs = Map.empty\<rparr>]\<rparr>)\<rparr>"

definition alice :: signer where
  "alice = \<lparr>signer_name = ''alice'', fingerprint = ''aaaaaaaa'', xpub = ''tpubA'',
            derivation_path = ''m/44h/1h/0h''\<rparr>"

definition bob :: signer where
  "bob = \<lparr>signer_name = ''bob'', fingerprint = ''bbbbbbbb'', xpub = ''tpubB'',
          derivation_path = ''m/44h/1h/0h''\<rparr>"

definition sample_wallet :: wallet where
  "sample_wallet = \<lparr>name = ''w'', m = 2, n = 2, signers = [alice, bob], psbt = None,
                    address_index = 0, export_index = 100\<rparr>"

definition waiting_wallet :: wallet where
  "waiting_wallet = \<lparr>name = ''w'', m = 2, n = 3, signers = [alice, bob], psbt = None,
                     address_index = 0, export_index = 0\<rparr>"

definition sample_world :: world where
  "sample_world = \<lparr>disk = Map.empty, imported = [], wallet = sample_wallet\<rparr>"

definition signed_psbt :: psbt where
  "signed_psbt = \<lparr>tx = ''cHNidP8B'',
                  inputs = [\<lparr>partial_sigs = [''02a'' \<mapsto> ''sigA'', ''03b'' \<mapsto> ''sigB'']\<rparr>,
                            \<lparr>partial_sigs = Map.empty\<rparr>]\<rparr>"

text \<open>The sample wallet one index ahead of the exported range.\<close>

definition ahead_world :: world where
  "ahead_world = \<lparr>disk = Map.empty, imported = [],
                  wallet = sample_wallet\<lparr>address_index := 101\<rparr>\<rparr>"

text \<open>
  The sample world after \<open>create_psbt\<close>: the wallet holds the PSBT and the wallet file
  says so. The sample wallet with a PSBT that carries two signatures on its first input.
\<close>

definition holding_wallet :: wallet where
  "holding_wallet =
     sample_wallet\<lparr>address_index := 2,
                   psbt := Some \<lparr>tx = ''cHNidP8B'', inputs = [\<lparr>partial_sigs = Map.empty\<rparr>]\<rparr>\<rparr>"

definition holding_world :: world where
  "holding_world =
     \<lparr>disk = [''wallets/w.json'' \<mapsto> to_dict sample_env holding_wallet], imported = [],
      wallet = holding_wallet\<rparr>"

definition signed_wallet :: wallet where
  "signed_wallet = sample_wallet\<lparr>psbt := Some signed_psbt\<rparr>"

text \<open>A data directory with no wallet file.\<close>

definition empty_store :: store where
  "empty_store = \<lparr>disk = Map.empty, imported = []\<rparr>"

section \<open>Proofs\<close>

subsection \<open>Persistence and the descriptor\<close>

lemma save_wallet [simp]: "wallet (save ev w) = wallet w"
  by (simp add: save_def)

lemma save_imported [simp]: "imported (save ev w) = imported w"
  by (simp add: save_def)

lemma descriptor_raw_cong:
  "m wl' = m wl \<Longrightarrow> signers wl' = signers wl \<Longrightarrow> descriptor_raw wl' = descriptor_raw wl"
  by (simp add: descriptor_raw_def)

lemma descriptor_cong:
  "m wl' = m wl \<Longrightarrow> signers wl' = signers wl \<Longrightarrow> descriptor ev wl' = descriptor ev wl"
  using descriptor_raw_cong [of wl' wl] by (simp add: descriptor_def)

lemma probe_cong:
  "m wl' = m wl \<Longrightarrow> signers wl' = signers wl \<Longrightarrow> probe ev wl' = probe ev wl"
  using descriptor_cong [of wl' wl ev] by (intro ext) (simp add: probe_def)

subsection \<open>The export cycle\<close>

lemma export_watchonly_fail:
  "descriptor ev (wallet w) = Inl e \<Longrightarrow> export_watchonly ev w = (Inl e, w)"
  by (simp add: export_watchonly_def Let_def)

lemma export_watchonly_reject:
  "descriptor ev (wallet w) = Inr d \<Longrightarrow> importmulti ev [export_request ev w d] = Inl e
   \<Longrightarrow> export_watchonly ev w = (Inl (raise_rpc e), w)"
  by (simp add: export_watchonly_def export_request_def ADDRESS_CHUNK_def Let_def)

lemma export_watchonly_ok:
  "descriptor ev (wallet w) = Inr d \<Longrightarrow> importmulti ev [export_request ev w d] = Inr u
   \<Longrightarrow> export_watchonly ev w = (Inr (), exported ev w d)"
  by (simp add: export_watchonly_def export_request_def exported_def ADDRESS_CHUNK_def Let_def)

lemma export_watchonly_cases:
  assumes "export_watchonly ev w = (r, w1)"
  shows "(\<exists>e. r = Inl e \<and> w1 = w) \<or>
         (\<exists>d. r = Inr () \<and> descriptor ev (wallet w) = Inr d \<and> w1 = exported ev w d)"
proof (cases "descriptor ev (wallet w)")
  case (Inl e)
  from export_watchonly_fail [OF this] assms show ?thesis by simp
next
  case (Inr d)
  show ?thesis
  proof (cases "importmulti ev [export_request ev w d]")
    case (Inl e)
    from export_watchonly_reject [OF Inr this] assms show ?thesis by simp
  next
    case accepted: (Inr u)
    from export_watchonly_ok [OF Inr this] assms Inr show ?thesis by simp
  qed
qed

lemma exported_wallet:
  "wallet (exported ev w d) = (wallet w)\<lparr>export_index := export_index (wallet w) + 100\<rparr>"
  by (simp add: exported_def)

lemma exported_imported:
  "imported (exported ev w d) = imported w @ [export_request ev w d]"
  by (simp add: exported_def)

lemma exported_disk:
  "disk (exported ev w d) (wallet_file_path (wallet (exported ev w d)))
     = Some (to_dict ev (wallet (exported ev w d)))"
  by (simp add: exported_def save_def wallet_file_path_def)

lemma chunked_refl: "chunked w w []"
  by (simp add: chunked_def)

lemma chunked_exported: "chunked w (exported ev w d) [export_request ev w d]"
  by (simp add: chunked_def exported_wallet exported_imported ADDRESS_CHUNK_def)

lemma chunked_trans:
  "chunked w w1 reqs \<Longrightarrow> chunked w1 w2 reqs' \<Longrightarrow> chunked w w2 (reqs @ reqs')"
  by (simp add: chunked_def algebra_simps)

lemma before_probe_cases:
  assumes "before_probe ev w = (r, w1)"
  shows "(address_index (wallet w) \<le> export_index (wallet w) \<and> r = Inr () \<and> w1 = w) \<or>
         (address_index (wallet w) > export_index (wallet w) \<and> (\<exists>e. r = Inl e) \<and> w1 = w) \<or>
         (address_index (wallet w) > export_index (wallet w) \<and> r = Inr () \<and>
            (\<exists>d. descriptor ev (wallet w) = Inr d \<and> w1 = exported ev w d))"
proof (cases "address_index (wallet w) > export_index (wallet w)")
  case True
  with assms have "export_watchonly ev w = (r, w1)" by (simp add: before_probe_def)
  from export_watchonly_cases [OF this] True show ?thesis by blast
next
  case False
  with assms show ?thesis by (auto simp: before_probe_def)
qed

subsection \<open>One pass of the allocation\<close>

lemma address_pass_body:
  "(if \<not> ready (wallet w) then
        Some (Inl (JunctionError (str_int (n (wallet w)) @ '' signers required, ''
                     @ str_int (int (length (signers (wallet w)))) @ '' registered'')), w)
      else
        case (if address_index (wallet w) > export_index (wallet w)
              then export_watchonly ev w else (Inr (), w)) of
          (Inl e, w1) \<Rightarrow> Some (Inl e, w1)
        | (Inr _, w1) \<Rightarrow>
            (case descriptor ev (wallet w1) of
               Inl e \<Rightarrow> Some (Inl e, w1)
             | Inr d \<Rightarrow>
                 (case deriveaddresses ev d (address_index (wallet w1), address_index (wallet w1) + 1) of
                    Inl e \<Rightarrow> Some (Inl (raise_rpc e), w1)
                  | Inr [] \<Rightarrow> Some (Inl (IndexError ''list index out of range''), w1)
                  | Inr (a # _) \<Rightarrow>
                      (let w2 = w1\<lparr>wallet := (wallet w1)\<lparr>address_index := address_index (wallet w1) + 1\<rparr>\<rparr>
                       in case getaddressinfo ev a of
                            Inl e \<Rightarrow> Some (Inl (raise_rpc e), w2)
                          | Inr ai \<Rightarrow>
                              if \<not> iswatchonly ai then
                                Some (Inl (AssertionError ''Bitcoin Core gave us non-watch-only address''), w2)
                              else if pubkeys ai \<noteq> sort (pubkeys ai) then f ev w2
                              else Some (Inr a, save ev w2)))))
   = (case address_pass ev w of Inl res \<Rightarrow> Some res | Inr w2 \<Rightarrow> f ev w2)"
  by (simp add: address_pass_def Let_def split: prod.split sum.split list.split)

lemma address_unfold:
  "address ev w = (case address_pass ev w of Inl res \<Rightarrow> Some res | Inr w2 \<Rightarrow> address ev w2)"
  by (subst address.simps) (rule address_pass_body)

lemma address_pass_induct [consumes 1, case_names final retry]:
  assumes run: "address ev w = Some res"
    and final: "\<And>ev w res. address_pass ev w = Inl res \<Longrightarrow> P ev w res"
    and retry: "\<And>ev w w2 res. address_pass ev w = Inr w2 \<Longrightarrow> P ev w2 res \<Longrightarrow> P ev w res"
  shows "P ev w res"
proof (rule address.raw_induct [where P = P, OF _ run], goal_cases)
  case (1 f ev w res)
  from 1(2) have body:
    "(case address_pass ev w of Inl res \<Rightarrow> Some res | Inr w2 \<Rightarrow> f ev w2) = Some res"
    by (simp only: address_pass_body)
  show ?case
  proof (cases "address_pass ev w")
    case (Inl res')
    with body final show ?thesis by simp
  next
    case (Inr w2)
    with body have "f ev w2 = Some res" by simp
    from retry [OF Inr 1(1) [OF this]] show ?thesis .
  qed
qed

lemma address_pass_retry:
  assumes "address_pass ev w = Inr w2"
  shows "ready (wallet w) \<and>
         (\<exists>w1 a keys. before_probe ev w = (Inr (), w1) \<and> w2 = bump w1 \<and>
            probe ev (wallet w1) (address_index (wallet w1)) = Some (a, keys) \<and> keys \<noteq> sort keys)"
  using assms
  by (auto simp: address_pass_def before_probe_def bump_def probe_def Let_def
      split: if_splits prod.splits sum.splits list.splits)

lemma address_pass_ok:
  assumes "address_pass ev w = Inl (Inr a, w')"
  shows "ready (wallet w) \<and>
         (\<exists>w1 keys. before_probe ev w = (Inr (), w1) \<and> w' = save ev (bump w1) \<and>
            probe ev (wallet w1) (address_index (wallet w1)) = Some (a, keys) \<and> keys = sort keys)"
  using assms
  by (auto simp: address_pass_def before_probe_def bump_def probe_def Let_def
      split: if_splits prod.splits sum.splits list.splits)

lemma address_pass_error:
  assumes "address_pass ev w = Inl (Inl e, w')"
  shows "w' = w \<or> (\<exists>r w1. before_probe ev w = (r, w1) \<and> (w' = w1 \<or> w' = bump w1))"
  using assms
  by (auto simp: address_pass_def before_probe_def bump_def Let_def
      split: if_splits prod.splits sum.splits list.splits)

lemma bump_fields [simp]:
  "address_index (wallet (bump w)) = address_index (wallet w) + 1"
  "export_index (wallet (bump w)) = export_index (wallet w)"
  "m (wallet (bump w)) = m (wallet w)" "signers (wallet (bump w)) = signers (wallet w)"
  "imported (bump w) = imported w"
  by (simp_all add: bump_def)

lemma before_probe_effect:
  assumes "before_probe ev w = (r, w1)"
  shows "address_index (wallet w1) = address_index (wallet w) \<and> m (wallet w1) = m (wallet w)
       \<and> signers (wallet w1) = signers (wallet w)
       \<and> ((chunked w w1 [] \<and> (r = Inr () \<longrightarrow> address_index (wallet w) \<le> export_index (wallet w)))
          \<or> (\<exists>req. chunked w w1 [req] \<and> r = Inr ()
                \<and> address_index (wallet w) > export_index (wallet w)))"
  using before_probe_cases [OF assms]
proof (elim disjE conjE exE)
  fix d
  assume "w1 = exported ev w d" "r = Inr ()" "address_index (wallet w) > export_index (wallet w)"
  then show ?thesis
    using chunked_exported [of w ev d] by (auto simp: exported_wallet)
qed (auto simp: chunked_refl)

subsection \<open>What a call of address does to the indices\<close>

lemma advanced_now:
  assumes "probe ev (wallet w) (address_index (wallet w)) = Some (a, keys)" "keys = sort keys"
    and "address_index (wallet w') = address_index (wallet w) + 1"
    and "m (wallet w') = m (wallet w)" "signers (wallet w') = signers (wallet w)"
  shows "advanced ev w a w' 0"
  using assms by (simp add: advanced_def accepted_def)

lemma advanced_later:
  assumes pr: "probe ev (wallet w) (address_index (wallet w)) = Some (a0, keys)" "keys \<noteq> sort keys"
    and w2: "address_index (wallet w2) = address_index (wallet w) + 1"
      "m (wallet w2) = m (wallet w)" "signers (wallet w2) = signers (wallet w)"
    and adv: "advanced ev w2 a w' k"
  shows "advanced ev w a w' (Suc k)"
proof -
  have pc: "probe ev (wallet w2) = probe ev (wallet w)"
    using w2 by (intro probe_cong) simp_all
  have sk: "skipped ev (wallet w) (address_index (wallet w) + int j)" if "j < Suc k" for j
  proof (cases j)
    case 0
    with pr show ?thesis by (simp add: skipped_def)
  next
    case (Suc j')
    with that have "j' < k" by simp
    with adv have "skipped ev (wallet w2) (address_index (wallet w2) + int j')"
      by (simp add: advanced_def)
    with Suc pc w2 show ?thesis by (simp add: skipped_def add.assoc)
  qed
  have acc: "accepted ev (wallet w) (address_index (wallet w) + int (Suc k)) a"
    using adv pc w2 by (simp add: advanced_def accepted_def add.assoc)
  have ix: "address_index (wallet w') = address_index (wallet w) + 1 + int (Suc k)"
    using adv w2 by (simp add: advanced_def)
  have keep: "m (wallet w') = m (wallet w)" "signers (wallet w') = signers (wallet w)"
    using adv w2 by (simp_all add: advanced_def)
  show ?thesis
    unfolding advanced_def using sk acc ix keep by blast
qed

lemma address_advanced:
  assumes "address ev w = Some res"
  shows "\<forall>a w'. res = (Inr a, w') \<longrightarrow> (\<exists>k. advanced ev w a w' k)"
  using assms
proof (induction rule: address_pass_induct)
  case (final ev w res)
  show ?case
  proof (intro allI impI)
    fix a w' assume "res = (Inr a, w')"
    with final have "address_pass ev w = Inl (Inr a, w')" by simp
    from address_pass_ok [OF this] obtain w1 keys where
      bp: "before_probe ev w = (Inr (), w1)" and w': "w' = save ev (bump w1)" and
      pr: "probe ev (wallet w1) (address_index (wallet w1)) = Some (a, keys)" "keys = sort keys"
      by blast
    from before_probe_effect [OF bp] have same: "address_index (wallet w1) = address_index (wallet w)"
      "m (wallet w1) = m (wallet w)" "signers (wallet w1) = signers (wallet w)" by simp_all
    have "probe ev (wallet w1) = probe ev (wallet w)" using same by (intro probe_cong)
    with pr same have "probe ev (wallet w) (address_index (wallet w)) = Some (a, keys)" by simp
    from advanced_now [OF this pr(2)] w' same have "advanced ev w a w' 0" by simp
    then show "\<exists>k. advanced ev w a w' k" ..
  qed
next
  case (retry ev w w2 res)
  show ?case
  proof (intro allI impI)
    fix a w' assume res: "res = (Inr a, w')"
    from address_pass_retry [OF retry(1)] obtain w1 a0 keys where
      bp: "before_probe ev w = (Inr (), w1)" and w2: "w2 = bump w1" and
      pr: "probe ev (wallet w1) (address_index (wallet w1)) = Some (a0, keys)" "keys \<noteq> sort keys"
      by blast
    from before_probe_effect [OF bp] have same: "address_index (wallet w1) = address_index (wallet w)"
      "m (wallet w1) = m (wallet w)" "signers (wallet w1) = signers (wallet w)" by simp_all
    have "probe ev (wallet w1) = probe ev (wallet w)" using same by (intro probe_cong)
    with pr same have pr': "probe ev (wallet w) (address_index (wallet w)) = Some (a0, keys)" by simp
    from retry(2) res obtain k where "advanced ev w2 a w' k" by blast
    from advanced_later [OF pr' pr(2) _ _ _ this] w2 same have "advanced ev w a w' (Suc k)" by simp
    then show "\<exists>k. advanced ev w a w' k" ..
  qed
qed

lemma address_chunked:
  assumes "address ev w = Some res"
  shows "address_index (wallet w) \<le> address_index (wallet (snd res)) \<and>
         (\<exists>reqs. chunked w (snd res) reqs \<and>
            (\<forall>a. fst res = Inr a \<longrightarrow>
               address_index (wallet w) < address_index (wallet (snd res)) \<and>
               (reqs \<noteq> [] \<longleftrightarrow> address_index (wallet (snd res)) - 1 > export_index (wallet w))))"
  using assms
proof (induction rule: address_pass_induct)
  case (final ev w res)
  obtain r w' where res: "res = (r, w')" by (cases res)
  show ?case
  proof (cases r)
    case (Inr a)
    with final res have "address_pass ev w = Inl (Inr a, w')" by simp
    from address_pass_ok [OF this] obtain w1 where
      bp: "before_probe ev w = (Inr (), w1)" and w': "w' = save ev (bump w1)"
      by blast
    from before_probe_effect [OF bp] w' res Inr show ?thesis
      by (auto simp: chunked_def)
  next
    case (Inl e)
    with final res have "address_pass ev w = Inl (Inl e, w')" by simp
    from address_pass_error [OF this] consider "w' = w"
      | r1 w1 where "before_probe ev w = (r1, w1)" "w' = w1 \<or> w' = bump w1" by blast
    then show ?thesis
    proof cases
      case 1
      with res Inl chunked_refl [of w] show ?thesis by auto
    next
      case 2
      from before_probe_effect [OF 2(1)] 2(2) res Inl show ?thesis
        by (auto simp: chunked_def)
    qed
  qed
next
  case (retry ev w w2 res)
  from address_pass_retry [OF retry(1)] obtain w1 where
    bp: "before_probe ev w = (Inr (), w1)" and w2: "w2 = bump w1" by blast
  from retry(2) obtain reqs2 where
    mono: "address_index (wallet w2) \<le> address_index (wallet (snd res))" and
    ch: "chunked w2 (snd res) reqs2" and
    ok: "\<forall>a. fst res = Inr a \<longrightarrow>
               address_index (wallet w2) < address_index (wallet (snd res)) \<and>
               (reqs2 \<noteq> [] \<longleftrightarrow> address_index (wallet (snd res)) - 1 > export_index (wallet w2))"
    by blast
  from before_probe_effect [OF bp] have same: "address_index (wallet w1) = address_index (wallet w)"
    and split: "(chunked w w1 [] \<and> address_index (wallet w) \<le> export_index (wallet w))
          \<or> (\<exists>req. chunked w w1 [req] \<and> address_index (wallet w) > export_index (wallet w))"
    by auto
  from split show ?case
  proof (elim disjE conjE exE)
    assume c: "chunked w w1 []" and le: "address_index (wallet w) \<le> export_index (wallet w)"
    from c w2 have "chunked w w2 []" by (simp add: chunked_def)
    from chunked_trans [OF this ch] have ch': "chunked w (snd res) reqs2" by simp
    have "export_index (wallet w2) = export_index (wallet w)"
      using c w2 by (simp add: chunked_def)
    with ok mono same w2 ch' show ?thesis by auto
  next
    fix req
    assume c: "chunked w w1 [req]" and gt: "address_index (wallet w) > export_index (wallet w)"
    from c w2 have "chunked w w2 [req]" by (simp add: chunked_def)
    from chunked_trans [OF this ch] have ch': "chunked w (snd res) (req # reqs2)" by simp
    have "address_index (wallet (snd res)) - 1 > export_index (wallet w)"
      using mono gt same w2 by simp
    with ok mono same w2 ch' show ?thesis by (intro conjI exI [of _ "req # reqs2"]) auto
  qed
qed

subsection \<open>When a call of address returns\<close>

lemma before_probe_ready:
  assumes "before_probe ev w = (r, w1)"
  shows "ready (wallet w1) = ready (wallet w)"
  using before_probe_cases [OF assms]
  by (auto simp: ready_def exported_wallet)

lemma before_probe_succeeds:
  assumes imp: "\<And>reqs. importmulti ev reqs = Inr ()"
    and d: "descriptor ev (wallet w) = Inr d"
  shows "\<exists>w1. before_probe ev w = (Inr (), w1)"
proof (cases "address_index (wallet w) > export_index (wallet w)")
  case True
  from export_watchonly_ok [OF d imp] True show ?thesis by (simp add: before_probe_def)
next
  case False
  then show ?thesis by (simp add: before_probe_def)
qed

lemma address_pass_probe:
  assumes rdy: "ready (wallet w)"
    and bp: "before_probe ev w = (Inr (), w1)"
    and pr: "probe ev (wallet w) (address_index (wallet w)) = Some (a, keys)"
  shows "address_pass ev w
           = (if keys \<noteq> sort keys then Inr (bump w1) else Inl (Inr a, save ev (bump w1)))"
proof -
  from before_probe_effect [OF bp] have same: "address_index (wallet w1) = address_index (wallet w)"
    "m (wallet w1) = m (wallet w)" "signers (wallet w1) = signers (wallet w)" by simp_all
  have "probe ev (wallet w1) = probe ev (wallet w)" using same by (intro probe_cong)
  with pr same have pr1: "probe ev (wallet w1) (address_index (wallet w1)) = Some (a, keys)"
    by simp
  then obtain d where d: "descriptor ev (wallet w1) = Inr d"
    by (cases "descriptor ev (wallet w1)") (simp_all add: probe_def)
  from pr1 d obtain as where
    der: "deriveaddresses ev d (address_index (wallet w1), address_index (wallet w1) + 1) = Inr (a # as)"
    by (auto simp: probe_def split: sum.splits list.splits if_splits)
  from pr1 d der obtain ai where
    ai: "getaddressinfo ev a = Inr ai" "iswatchonly ai" "pubkeys ai = keys"
    by (auto simp: probe_def split: sum.splits if_splits)
  from bp have bp': "(if address_index (wallet w) > export_index (wallet w)
              then export_watchonly ev w else (Inr (), w)) = (Inr (), w1)"
    by (simp add: before_probe_def)
  show ?thesis
    by (simp add: address_pass_def rdy bp' d der ai bump_def Let_def)
qed

text \<open>
  If the node takes every import and the candidates at \<open>address_index\<close>, ...,
  \<open>address_index + k\<close> can be derived and looked up, and the last of them has sorted
  keys, then the call returns an address.
\<close>

lemma address_returns:
  assumes "ready (wallet w)"
    and imp: "\<And>reqs. importmulti ev reqs = Inr ()"
    and pr: "\<And>j. j \<le> k \<Longrightarrow> probe ev (wallet w) (address_index (wallet w) + int j) \<noteq> None"
    and acc: "\<not> skipped ev (wallet w) (address_index (wallet w) + int k)"
  shows "\<exists>a w'. address ev w = Some (Inr a, w')"
  using assms
proof (induction k arbitrary: w)
  case 0
  from "0.prems"(3) [of 0] obtain a keys where
    p: "probe ev (wallet w) (address_index (wallet w)) = Some (a, keys)" by auto
  with "0.prems"(4) have sorted: "keys = sort keys" by (simp add: skipped_def)
  from p obtain d where "descriptor ev (wallet w) = Inr d"
    by (cases "descriptor ev (wallet w)") (simp_all add: probe_def)
  from before_probe_succeeds [OF "0.prems"(2) this] obtain w1 where
    bp: "before_probe ev w = (Inr (), w1)" by blast
  from address_pass_probe [OF "0.prems"(1) bp p] sorted
  have "address_pass ev w = Inl (Inr a, save ev (bump w1))" by simp
  then have "address ev w = Some (Inr a, save ev (bump w1))"
    by (subst address_unfold) simp
  then show ?case by blast
next
  case (Suc k)
  from Suc.prems(3) [of 0] obtain a keys where
    p: "probe ev (wallet w) (address_index (wallet w)) = Some (a, keys)" by auto
  from p obtain d where "descriptor ev (wallet w) = Inr d"
    by (cases "descriptor ev (wallet w)") (simp_all add: probe_def)
  from before_probe_succeeds [OF Suc.prems(2) this] obtain w1 where
    bp: "before_probe ev w = (Inr (), w1)" by blast
  note pass = address_pass_probe [OF Suc.prems(1) bp p]
  show ?case
  proof (cases "keys = sort keys")
    case True
    with pass have "address_pass ev w = Inl (Inr a, save ev (bump w1))" by simp
    then have "address ev w = Some (Inr a, save ev (bump w1))"
      by (subst address_unfold) simp
    then show ?thesis by blast
  next
    case False
    with pass have "address_pass ev w = Inr (bump w1)" by simp
    then have step: "address ev w = address ev (bump w1)"
      by (subst address_unfold) simp
    from before_probe_effect [OF bp] have same: "address_index (wallet w1) = address_index (wallet w)"
      "m (wallet w1) = m (wallet w)" "signers (wallet w1) = signers (wallet w)" by simp_all
    have pc: "probe ev (wallet (bump w1)) = probe ev (wallet w)"
      using same by (intro probe_cong) simp_all
    have rdy: "ready (wallet (bump w1))"
      using before_probe_ready [OF bp] Suc.prems(1) by (simp add: ready_def bump_def)
    have pr': "probe ev (wallet (bump w1)) (address_index (wallet (bump w1)) + int j) \<noteq> None"
      if "j \<le> k" for j
      using Suc.prems(3) [of "Suc j"] that same pc by (simp add: add.assoc)
    have acc': "\<not> skipped ev (wallet (bump w1)) (address_index (wallet (bump w1)) + int k)"
      using Suc.prems(4) same pc by (simp add: skipped_def add.assoc)
    from Suc.IH [OF rdy Suc.prems(2) pr' acc'] step show ?thesis by simp
  qed
qed

text \<open>
  If every candidate from \<open>address_index\<close> on has unsorted keys, the recursion has no
  end.
\<close>

lemma address_never_returns:
  assumes rdy: "ready (wallet w)"
    and imp: "\<And>reqs. importmulti ev reqs = Inr ()"
    and sk: "\<And>j. skipped ev (wallet w) (address_index (wallet w) + int j)"
  shows "address ev w = None"
proof (rule ccontr)
  assume "address ev w \<noteq> None"
  then obtain res where run: "address ev w = Some res" by blast
  from run have
    "ready (wallet w) \<longrightarrow> (\<forall>reqs. importmulti ev reqs = Inr ()) \<longrightarrow>
       (\<forall>j. skipped ev (wallet w) (address_index (wallet w) + int j)) \<longrightarrow> False"
  proof (induction rule: address_pass_induct)
    case (final ev w res)
    show ?case
    proof (intro impI)
      assume rdy: "ready (wallet w)" and imp: "\<forall>reqs. importmulti ev reqs = Inr ()"
        and sk: "\<forall>j. skipped ev (wallet w) (address_index (wallet w) + int j)"
      from sk [rule_format, of 0] obtain a keys where
        p: "probe ev (wallet w) (address_index (wallet w)) = Some (a, keys)" "keys \<noteq> sort keys"
        by (auto simp: skipped_def split: option.splits)
      from p obtain d where "descriptor ev (wallet w) = Inr d"
        by (cases "descriptor ev (wallet w)") (simp_all add: probe_def)
      from before_probe_succeeds [OF imp [rule_format] this] obtain w1 where
        bp: "before_probe ev w = (Inr (), w1)" by blast
      from address_pass_probe [OF rdy bp p(1)] p(2) final show False by simp
    qed
  next
    case (retry ev w w2 res)
    show ?case
    proof (intro impI)
      assume rdy: "ready (wallet w)" and imp: "\<forall>reqs. importmulti ev reqs = Inr ()"
        and sk: "\<forall>j. skipped ev (wallet w) (address_index (wallet w) + int j)"
      from address_pass_retry [OF retry(1)] obtain w1 where
        bp: "before_probe ev w = (Inr (), w1)" and w2: "w2 = bump w1" by blast
      from before_probe_effect [OF bp] have same: "address_index (wallet w1) = address_index (wallet w)"
        "m (wallet w1) = m (wallet w)" "signers (wallet w1) = signers (wallet w)" by simp_all
      have pc: "probe ev (wallet w2) = probe ev (wallet w)"
        using same w2 by (intro probe_cong) simp_all
      have rdy2: "ready (wallet w2)"
        using before_probe_ready [OF bp] rdy w2 by (simp add: ready_def bump_def)
      have "skipped ev (wallet w2) (address_index (wallet w2) + int j)" for j
        using sk [rule_format, of "Suc j"] same pc w2 by (simp add: skipped_def add.assoc)
      with retry(2) rdy2 imp show False by blast
    qed
  qed
  with rdy imp sk show False by blast
qed

subsection \<open>Runs on the sample data\<close>

lemmas sample_defs =
  sample_env_def sample_world_def sample_wallet_def waiting_wallet_def alice_def bob_def
  ahead_world_def

lemma str_int_small [simp]:
  "str_int 0 = ''0''" "str_int 1 = ''1''" "str_int 2 = ''2''" "str_int 3 = ''3''"
  "str_int 100 = ''100''" "str_int 101 = ''101''" "str_int 102 = ''102''"
  by (simp_all add: str_int_def str_nat.simps)

lemma sample_descriptor_raw:
  "descriptor_raw sample_wallet
     = ''sh(multi(2,[aaaaaaaa/44h/1h/0h]tpubA/0/*,[bbbbbbbb/44h/1h/0h]tpubB/0/*))''"
  by (simp add: descriptor_raw_def sample_defs)

lemma sample_address_run:
  "address sample_env sample_world
     = Some (Inr ''addr1'', save sample_env (sample_world\<lparr>wallet := sample_wallet\<lparr>address_index := 2\<rparr>\<rparr>))"
  by (simp add: address.simps sample_defs ready_def descriptor_def descriptor_raw_def upto.simps)

lemma sample_probe:
  "probe sample_env sample_wallet 0 = Some (''addr0'', [''03b'', ''02a''])"
  "probe sample_env sample_wallet 1 = Some (''addr1'', [''02a'', ''03b''])"
  by (simp_all add: probe_def sample_defs descriptor_def descriptor_raw_def upto.simps)

subsection \<open>Claim C1: how far a call of address advances the index\<close>

text \<open>
  C1, as amended. A call of \<open>address\<close> that returns the address \<open>a\<close> has skipped some
  number \<open>k\<close> of candidates, those at the indices \<open>address_index\<close>, ...,
  \<open>address_index + k - 1\<close>, each with unsorted public keys, and has accepted \<open>a\<close> at
  \<open>address_index + k\<close> with sorted keys; it leaves \<open>address_index\<close> larger by \<open>1 + k\<close>.
  The index is advanced before the keys are looked at, so a retry starts one index
  further, and the advance is one more than the number of retries.
\<close>

theorem address_index_advance:
  assumes "address ev w = Some (Inr a, w')"
  shows "\<exists>k. address_index (wallet w') = address_index (wallet w) + 1 + int k
           \<and> (\<forall>j<k. skipped ev (wallet w) (address_index (wallet w) + int j))
           \<and> accepted ev (wallet w) (address_index (wallet w) + int k) a"
  using address_advanced [OF assms] by (auto simp: advanced_def)

text \<open>
  On the sample node the candidate at index 0 is skipped and the one at index 1 accepted:
  one retry, and the index goes from 0 to 2.
\<close>

theorem address_index_advance_witness:
  "address sample_env sample_world
     = Some (Inr ''addr1'', save sample_env (sample_world\<lparr>wallet := sample_wallet\<lparr>address_index := 2\<rparr>\<rparr>))
   \<and> address_index (wallet (save sample_env (sample_world\<lparr>wallet := sample_wallet\<lparr>address_index := 2\<rparr>\<rparr>)))
       = address_index (wallet sample_world) + 1 + 1
   \<and> skipped sample_env (wallet sample_world) 0
   \<and> accepted sample_env (wallet sample_world) 1 ''addr1''"
proof -
  let ?w' = "save sample_env (sample_world\<lparr>wallet := sample_wallet\<lparr>address_index := 2\<rparr>\<rparr>)"
  from address_index_advance [OF sample_address_run] obtain k where
    k: "address_index (wallet ?w') = address_index (wallet sample_world) + 1 + int k"
       "\<forall>j<k. skipped sample_env (wallet sample_world) (address_index (wallet sample_world) + int j)"
       "accepted sample_env (wallet sample_world) (address_index (wallet sample_world) + int k) ''addr1''"
    by blast
  have ix: "address_index (wallet ?w') = 2" "address_index (wallet sample_world) = 0"
    by (simp_all add: sample_world_def sample_wallet_def)
  with k(1) have "k = 1" by simp
  with k ix sample_address_run show ?thesis by simp
qed

text \<open>
  C1 as stated says the index grows by exactly 1 whatever the number of retries. The same
  call has one retry and grows it by 2.
\<close>

theorem address_index_advance_counterexample:
  "skipped sample_env (wallet sample_world) 0
   \<and> address sample_env sample_world
       = Some (Inr ''addr1'', save sample_env (sample_world\<lparr>wallet := sample_wallet\<lparr>address_index := 2\<rparr>\<rparr>))
   \<and> address_index (wallet sample_world) = 0
   \<and> address_index (wallet (save sample_env (sample_world\<lparr>wallet := sample_wallet\<lparr>address_index := 2\<rparr>\<rparr>))) = 2
   \<and> address_index (wallet (save sample_env (sample_world\<lparr>wallet := sample_wallet\<lparr>address_index := 2\<rparr>\<rparr>)))
       \<noteq> address_index (wallet sample_world) + 1"
  using sample_address_run sample_probe
  by (simp add: skipped_def sample_world_def sample_wallet_def)

subsection \<open>Claim C2: export_index moves in chunks\<close>

lemma export_watchonly_chunked:
  assumes "export_watchonly ev w = (r, w')"
  shows "\<exists>reqs. chunked w w' reqs \<and> length reqs = (if r = Inr () then 1 else 0)"
  using export_watchonly_cases [OF assms]
proof (elim disjE conjE exE)
  fix d assume "r = Inr ()" "w' = exported ev w d"
  with chunked_exported [of w ev d] show ?thesis by (intro exI [of _ "[export_request ev w d]"]) simp
next
  fix e assume "r = Inl e" "w' = w"
  with chunked_refl [of w] show ?thesis by (intro exI [of _ "[]"]) simp
qed

lemma add_signer_chunked:
  assumes "add_signer ev w a b c d = (r, w')"
  shows "\<exists>reqs. chunked w w' reqs"
proof -
  define w1 where "w1 = w\<lparr>wallet := (wallet w)\<lparr>signers := signers (wallet w) @
                   [\<lparr>signer_name = a, fingerprint = b, xpub = c, derivation_path = d\<rparr>]\<rparr>\<rparr>"
  have c1: "chunked w w1 []" by (simp add: chunked_def w1_def)
  consider (rejected) "w' = w"
    | (waiting) "w' = save ev w1"
    | (full) r2 w2 where "export_watchonly ev w1 = (r2, w2)" "w' = w2 \<or> w' = save ev w2"
    using assms
    by (cases "export_watchonly ev w1")
       (auto simp: add_signer_def Let_def w1_def split: if_splits sum.splits)
  then show ?thesis
  proof cases
    case rejected
    with chunked_refl [of w] show ?thesis by blast
  next
    case waiting
    with c1 have "chunked w w' []" by (simp add: chunked_def)
    then show ?thesis ..
  next
    case full
    from export_watchonly_chunked [OF full(1)] obtain reqs where "chunked w1 w2 reqs" by blast
    from chunked_trans [OF c1 this] full(2) have "chunked w w' reqs"
      by (auto simp: chunked_def)
    then show ?thesis ..
  qed
qed

lemma create_psbt_chunked:
  assumes "create_psbt ev w recipient satoshis = Some (r, w')"
  shows "\<exists>reqs. chunked w w' reqs"
proof (cases "psbt (wallet w) \<noteq> None")
  case True
  with assms have "w' = w" by (simp add: create_psbt_def)
  with chunked_refl [of w] show ?thesis by blast
next
  case False
  with assms obtain r1 w1 where run: "address ev w = Some (r1, w1)"
    by (cases "address ev w") (auto simp: create_psbt_def)
  from address_chunked [OF run] obtain reqs where c: "chunked w w1 reqs" by auto
  have "imported w' = imported w1 \<and> export_index (wallet w') = export_index (wallet w1)"
    using assms False run
    by (auto simp: create_psbt_def split: sum.splits)
  with c have "chunked w w' reqs" by (simp add: chunked_def)
  then show ?thesis ..
qed

text \<open>
  C2. Whatever operation runs and however it ends, the node has taken some import
  requests \<open>reqs\<close> during it, one for each export cycle that went through, and
  \<open>export_index\<close> has grown by 100 for each: it changes in no other way. One call of
  \<open>export_watchonly\<close> is one cycle if it succeeds and none if it raises. A successful
  \<open>address\<close> has run a cycle exactly when an index it tried, the last being the one it
  hands out, lies above the \<open>export_index\<close> it started with; with no retry that index is
  \<open>address_index\<close> at the call.
\<close>

theorem export_index_chunks:
  assumes "perform ev op w = Some (r, w')"
  shows "\<exists>reqs. imported w' = imported w @ reqs
           \<and> export_index (wallet w') = export_index (wallet w) + 100 * int (length reqs)
           \<and> (op = Export_watchonly \<longrightarrow> length reqs = (if r = Inr () then 1 else 0))
           \<and> (op = Address \<and> r = Inr () \<longrightarrow>
                (reqs \<noteq> [] \<longleftrightarrow> address_index (wallet w') - 1 > export_index (wallet w)))"
proof (cases op)
  case (Add_signer a b c d)
  with assms have "add_signer ev w a b c d = (r, w')" by simp
  from add_signer_chunked [OF this] Add_signer show ?thesis
    by (auto simp: chunked_def ADDRESS_CHUNK_def)
next
  case Address
  with assms obtain r1 where run: "address ev w = Some (r1, w')"
    and r: "r = Inr () \<longrightarrow> (\<exists>a. r1 = Inr a)"
    by (cases "address ev w") (auto split: sum.splits)
  from address_chunked [OF run] Address r show ?thesis
    by (auto simp: chunked_def ADDRESS_CHUNK_def)
next
  case Export_watchonly
  with assms have "export_watchonly ev w = (r, w')" by simp
  from export_watchonly_chunked [OF this] Export_watchonly show ?thesis
    by (auto simp: chunked_def ADDRESS_CHUNK_def)
next
  case (Create_psbt recipient satoshis)
  with assms have "create_psbt ev w recipient satoshis = Some (r, w')" by simp
  from create_psbt_chunked [OF this] Create_psbt show ?thesis
    by (auto simp: chunked_def ADDRESS_CHUNK_def)
next
  case Remove_psbt
  with assms show ?thesis by (auto simp: remove_psbt_def)
next
  case Save
  with assms show ?thesis by auto
qed

lemma sample_descriptor:
  "descriptor sample_env sample_wallet
     = Inr ''sh(multi(2,[aaaaaaaa/44h/1h/0h]tpubA/0/*,[bbbbbbbb/44h/1h/0h]tpubB/0/*))#checksum''"
  by (simp add: descriptor_def sample_descriptor_raw) (simp add: sample_env_def)

lemma sample_export_run:
  "export_watchonly sample_env sample_world
     = (Inr (), exported sample_env sample_world
         ''sh(multi(2,[aaaaaaaa/44h/1h/0h]tpubA/0/*,[bbbbbbbb/44h/1h/0h]tpubB/0/*))#checksum'')"
proof (rule export_watchonly_ok)
  show "descriptor sample_env (wallet sample_world)
     = Inr ''sh(multi(2,[aaaaaaaa/44h/1h/0h]tpubA/0/*,[bbbbbbbb/44h/1h/0h]tpubB/0/*))#checksum''"
    using sample_descriptor by (simp add: sample_world_def)
  show "importmulti sample_env [export_request sample_env sample_world
     ''sh(multi(2,[aaaaaaaa/44h/1h/0h]tpubA/0/*,[bbbbbbbb/44h/1h/0h]tpubB/0/*))#checksum''] = Inr ()"
    by (simp add: sample_env_def)
qed

lemma ahead_address_run:
  "address sample_env ahead_world
     = Some (Inr ''addr101'', save sample_env (bump (exported sample_env ahead_world
         ''sh(multi(2,[aaaaaaaa/44h/1h/0h]tpubA/0/*,[bbbbbbbb/44h/1h/0h]tpubB/0/*))#checksum'')))"
  by (simp add: address.simps sample_defs ready_def descriptor_def descriptor_raw_def upto.simps
      export_watchonly_def ADDRESS_CHUNK_def exported_def export_request_def bump_def save_def
      wallet_file_path_def to_dict_def Let_def)

text \<open>
  With \<open>address_index = 101\<close> above \<open>export_index = 100\<close> the allocation runs one
  cycle; \<open>export_watchonly\<close> on the sample world is one cycle.
\<close>

theorem export_index_chunks_witness:
  "perform sample_env Address ahead_world
     = Some (Inr (), save sample_env (bump (exported sample_env ahead_world
         ''sh(multi(2,[aaaaaaaa/44h/1h/0h]tpubA/0/*,[bbbbbbbb/44h/1h/0h]tpubB/0/*))#checksum'')))
   \<and> address_index (wallet ahead_world) > export_index (wallet ahead_world)
   \<and> length (imported (save sample_env (bump (exported sample_env ahead_world
         ''sh(multi(2,[aaaaaaaa/44h/1h/0h]tpubA/0/*,[bbbbbbbb/44h/1h/0h]tpubB/0/*))#checksum'')))) = 1
   \<and> export_index (wallet (save sample_env (bump (exported sample_env ahead_world
         ''sh(multi(2,[aaaaaaaa/44h/1h/0h]tpubA/0/*,[bbbbbbbb/44h/1h/0h]tpubB/0/*))#checksum''))))
       = export_index (wallet ahead_world) + 100
   \<and> perform sample_env Export_watchonly sample_world
       = Some (Inr (), exported sample_env sample_world
         ''sh(multi(2,[aaaaaaaa/44h/1h/0h]tpubA/0/*,[bbbbbbbb/44h/1h/0h]tpubB/0/*))#checksum'')
   \<and> export_index (wallet (exported sample_env sample_world
         ''sh(multi(2,[aaaaaaaa/44h/1h/0h]tpubA/0/*,[bbbbbbbb/44h/1h/0h]tpubB/0/*))#checksum''))
       = export_index (wallet sample_world) + 100"
proof -
  let ?d = "''sh(multi(2,[aaaaaaaa/44h/1h/0h]tpubA/0/*,[bbbbbbbb/44h/1h/0h]tpubB/0/*))#checksum''"
  let ?w1 = "save sample_env (bump (exported sample_env ahead_world ?d))"
  let ?w2 = "exported sample_env sample_world ?d"
  have p1: "perform sample_env Address ahead_world = Some (Inr (), ?w1)"
    by (simp add: ahead_address_run)
  have p2: "perform sample_env Export_watchonly sample_world = Some (Inr (), ?w2)"
    by (simp add: sample_export_run)
  from export_index_chunks [OF p1] obtain reqs where
    r1: "imported ?w1 = imported ahead_world @ reqs"
        "export_index (wallet ?w1) = export_index (wallet ahead_world) + 100 * int (length reqs)"
        "reqs \<noteq> [] \<longleftrightarrow> address_index (wallet ?w1) - 1 > export_index (wallet ahead_world)"
    by auto
  from export_index_chunks [OF p2] have
    r2: "export_index (wallet ?w2) = export_index (wallet sample_world) + 100"
    by auto
  have a: "address_index (wallet ahead_world) > export_index (wallet ahead_world)"
    by (simp add: ahead_world_def sample_wallet_def)
  have "length (imported ?w1) = 1"
    by (simp add: exported_imported ahead_world_def)
  with r1 have "length reqs = 1" by (simp add: ahead_world_def)
  with r1 r2 p1 p2 a \<open>length (imported ?w1) = 1\<close> show ?thesis by simp
qed

subsection \<open>Claim C3: the range of an export cycle\<close>

text \<open>
  C3, as amended. An export cycle that succeeds has handed the node one request, for
  the checksummed descriptor, dated 24 hours back, watch-only, outside the keypool and
  not internal, whose range argument is the pair
  \<open>[export_index, export_index + 100]\<close>. Both ends belong to a range, so it names the
  101 indices from \<open>export_index\<close> to \<open>export_index + 100\<close>, the last included.
\<close>

theorem export_range_closed:
  assumes "export_watchonly ev w = (Inr (), w')"
  shows "\<exists>d. descriptor ev (wallet w) = Inr d
           \<and> imported w' = imported w @
                [\<lparr>desc = d, timestamp = now ev - 86400,
                  range = (export_index (wallet w), export_index (wallet w) + 100),
                  watchonly = True, keypool = False, internal = False\<rparr>]
           \<and> set (range_indices (export_index (wallet w), export_index (wallet w) + 100))
               = {export_index (wallet w) .. export_index (wallet w) + 100}
           \<and> length (range_indices (export_index (wallet w), export_index (wallet w) + 100)) = 101"
  using export_watchonly_cases [OF assms]
  by (auto simp: exported_imported export_request_def range_indices_def)

text \<open>The cycle on the sample world asks for the range \<open>[100, 200]\<close>.\<close>

theorem export_range_closed_witness:
  "export_watchonly sample_env sample_world
     = (Inr (), exported sample_env sample_world
         ''sh(multi(2,[aaaaaaaa/44h/1h/0h]tpubA/0/*,[bbbbbbbb/44h/1h/0h]tpubB/0/*))#checksum'')
   \<and> map range (imported (exported sample_env sample_world
         ''sh(multi(2,[aaaaaaaa/44h/1h/0h]tpubA/0/*,[bbbbbbbb/44h/1h/0h]tpubB/0/*))#checksum''))
       = [(100, 200)]
   \<and> set (range_indices (100, 200)) = {100..200}
   \<and> length (range_indices (100, 200)) = 101"
proof -
  from export_range_closed [OF sample_export_run] obtain d where
    "imported (exported sample_env sample_world
         ''sh(multi(2,[aaaaaaaa/44h/1h/0h]tpubA/0/*,[bbbbbbbb/44h/1h/0h]tpubB/0/*))#checksum'')
       = imported sample_world @
                [\<lparr>desc = d, timestamp = now sample_env - 86400,
                  range = (export_index (wallet sample_world), export_index (wallet sample_world) + 100),
                  watchonly = True, keypool = False, internal = False\<rparr>]"
    "set (range_indices (export_index (wallet sample_world), export_index (wallet sample_world) + 100))
               = {export_index (wallet sample_world) .. export_index (wallet sample_world) + 100}"
    "length (range_indices (export_index (wallet sample_world), export_index (wallet sample_world) + 100)) = 101"
    by blast
  with sample_export_run show ?thesis
    by (simp add: sample_world_def sample_wallet_def)
qed

text \<open>
  C3 as stated says the range covers exactly 100 indices and leaves
  \<open>export_index + 100\<close> out. With \<open>export_index = 100\<close> the request's range is
  \<open>[100, 200]\<close>: index 200 is in it, and it has 101 indices.
\<close>

theorem export_range_counterexample:
  "export_index (wallet sample_world) = 100
   \<and> map range (imported (snd (export_watchonly sample_env sample_world))) = [(100, 100 + 100)]
   \<and> 100 + 100 \<in> set (range_indices (100, 100 + 100))
   \<and> length (range_indices (100, 100 + 100)) \<noteq> 100"
  by (simp add: sample_export_run exported_imported export_request_def range_indices_def)
     (simp add: sample_world_def sample_wallet_def)

subsection \<open>Claim C4: what is on disk after an operation\<close>

lemma sample_create_psbt_run:
  "create_psbt sample_env sample_world ''mkHS9ne12qx9pS9VojpwU5xtRd4T7X7ZUt'' 1000
     = Some (Inr (), holding_world)"
  by (simp add: create_psbt_def sample_address_run)
     (simp add: sample_defs holding_world_def holding_wallet_def save_def wallet_file_path_def
        to_dict_def)

text \<open>
  C4 fails for \<open>remove_psbt\<close>, which assigns \<open>None\<close> and does not call \<open>save\<close>.
  After \<open>create_psbt\<close> on the sample world the wallet file holds the serialised PSBT
  and equals the object; after \<open>remove_psbt\<close> the object has no PSBT, the file is the one
  written before and still holds it, and the file differs from the object.
\<close>

theorem remove_psbt_not_saved:
  "create_psbt sample_env sample_world ''mkHS9ne12qx9pS9VojpwU5xtRd4T7X7ZUt'' 1000
     = Some (Inr (), holding_world)
   \<and> disk holding_world (wallet_file_path (wallet holding_world))
       = Some (to_dict sample_env (wallet holding_world))
   \<and> d_psbt (to_dict sample_env (wallet holding_world)) = ''cHNidP8B''
   \<and> psbt (wallet (remove_psbt holding_world)) = None
   \<and> d_psbt (to_dict sample_env (wallet (remove_psbt holding_world))) = []
   \<and> disk (remove_psbt holding_world) (wallet_file_path (wallet (remove_psbt holding_world)))
       = Some (to_dict sample_env (wallet holding_world))
   \<and> disk (remove_psbt holding_world) (wallet_file_path (wallet (remove_psbt holding_world)))
       \<noteq> Some (to_dict sample_env (wallet (remove_psbt holding_world)))"
  using sample_create_psbt_run
  by (simp add: remove_psbt_def holding_world_def holding_wallet_def wallet_file_path_def
      to_dict_def sample_wallet_def sample_env_def)

text \<open>Every other operation that succeeds leaves the wallet file equal to the object.\<close>

lemma address_persists:
  assumes "address ev w = Some res"
  shows "\<forall>a w'. res = (Inr a, w') \<longrightarrow>
           disk w' (wallet_file_path (wallet w')) = Some (to_dict ev (wallet w'))"
  using assms
proof (induction rule: address_pass_induct)
  case (final ev w res)
  show ?case
  proof (intro allI impI)
    fix a w' assume "res = (Inr a, w')"
    with final have "address_pass ev w = Inl (Inr a, w')" by simp
    from address_pass_ok [OF this] obtain w1 where "w' = save ev (bump w1)" by blast
    then show "disk w' (wallet_file_path (wallet w')) = Some (to_dict ev (wallet w'))"
      by (simp add: save_def)
  qed
next
  case (retry ev w w2 res)
  then show ?case by simp
qed

lemma saving_operations_persist:
  assumes "perform ev op w = Some (Inr (), w')" "op \<noteq> Remove_psbt"
  shows "disk w' (wallet_file_path (wallet w')) = Some (to_dict ev (wallet w'))"
proof (cases op)
  case (Add_signer a b c d)
  with assms have "add_signer ev w a b c d = (Inr (), w')" by simp
  then obtain w2 where "w' = save ev w2"
    by (auto simp: add_signer_def Let_def split: if_splits prod.splits sum.splits)
  then show ?thesis by (simp add: save_def)
next
  case Address
  with assms obtain a where "address ev w = Some (Inr a, w')"
    by (cases "address ev w") (auto split: sum.splits)
  from address_persists [OF this] show ?thesis by simp
next
  case Export_watchonly
  with assms have "export_watchonly ev w = (Inr (), w')" by simp
  from export_watchonly_cases [OF this] show ?thesis by (auto simp: exported_disk)
next
  case (Create_psbt recipient satoshis)
  with assms have "create_psbt ev w recipient satoshis = Some (Inr (), w')" by simp
  then obtain w2 where "w' = save ev w2"
    by (auto simp: create_psbt_def split: if_splits option.splits prod.splits sum.splits)
  then show ?thesis by (simp add: save_def)
next
  case Remove_psbt
  with assms show ?thesis by simp
next
  case Save
  with assms show ?thesis by (auto simp: save_def)
qed

subsection \<open>Claim C5: descriptor and readiness\<close>

lemma raise_rpc_not_junction: "raise_rpc e \<noteq> JunctionError msg"
  by (cases e) simp_all

lemma address_not_ready:
  assumes "\<not> ready (wallet w)"
  shows "address ev w = Some (Inl (JunctionError (str_int (n (wallet w)) @ '' signers required, ''
                     @ str_int (int (length (signers (wallet w)))) @ '' registered'')), w)"
  using assms by (subst address.simps) simp

text \<open>
  C5, as amended. \<open>descriptor\<close> does not look at readiness: for any wallet it sends the
  raw descriptor of the signers registered so far to the node and returns the node's
  answer, or raises the node's failure; it never raises \<open>JunctionError\<close>. The check for
  readiness stands in \<open>address\<close>, which raises \<open>JunctionError\<close> and changes nothing
  when the wallet is not ready.
\<close>

theorem descriptor_unguarded:
  "(\<forall>msg. descriptor ev wl \<noteq> Inl (JunctionError msg))
   \<and> (\<forall>d. getdescriptorinfo ev (descriptor_raw wl) = Inr d \<longrightarrow> descriptor ev wl = Inr d)
   \<and> (\<forall>e. getdescriptorinfo ev (descriptor_raw wl) = Inl e \<longrightarrow> descriptor ev wl = Inl (raise_rpc e))
   \<and> (\<not> ready (wallet w) \<longrightarrow> (\<exists>msg. address ev w = Some (Inl (JunctionError msg), w)))"
proof (intro conjI allI impI)
  fix msg show "descriptor ev wl \<noteq> Inl (JunctionError msg)"
    by (cases "getdescriptorinfo ev (descriptor_raw wl)")
       (simp_all add: descriptor_def raise_rpc_not_junction)
next
  fix d assume "getdescriptorinfo ev (descriptor_raw wl) = Inr d"
  then show "descriptor ev wl = Inr d" by (simp add: descriptor_def)
next
  fix e assume "getdescriptorinfo ev (descriptor_raw wl) = Inl e"
  then show "descriptor ev wl = Inl (raise_rpc e)" by (simp add: descriptor_def)
next
  assume "\<not> ready (wallet w)"
  from address_not_ready [OF this]
  show "\<exists>msg. address ev w = Some (Inl (JunctionError msg), w)" by blast
qed

lemma waiting_descriptor_raw:
  "descriptor_raw waiting_wallet
     = ''sh(multi(2,[aaaaaaaa/44h/1h/0h]tpubA/0/*,[bbbbbbbb/44h/1h/0h]tpubB/0/*))''"
  by (simp add: descriptor_raw_def sample_defs)

lemma waiting_not_ready: "\<not> ready waiting_wallet"
  by (simp add: ready_def sample_defs)

text \<open>The 2-of-3 wallet with two signers: the node checksums its descriptor.\<close>

theorem descriptor_unguarded_witness:
  "\<not> ready waiting_wallet
   \<and> getdescriptorinfo sample_env (descriptor_raw waiting_wallet)
       = Inr ''sh(multi(2,[aaaaaaaa/44h/1h/0h]tpubA/0/*,[bbbbbbbb/44h/1h/0h]tpubB/0/*))#checksum''
   \<and> descriptor sample_env waiting_wallet
       = Inr ''sh(multi(2,[aaaaaaaa/44h/1h/0h]tpubA/0/*,[bbbbbbbb/44h/1h/0h]tpubB/0/*))#checksum''
   \<and> descriptor sample_env waiting_wallet \<noteq> Inl (JunctionError ''3 signers required, 2 registered'')
   \<and> address sample_env \<lparr>disk = Map.empty, imported = [], wallet = waiting_wallet\<rparr>
       = Some (Inl (JunctionError ''3 signers required, 2 registered''),
               \<lparr>disk = Map.empty, imported = [], wallet = waiting_wallet\<rparr>)"
proof -
  let ?w = "\<lparr>disk = Map.empty, imported = [], wallet = waiting_wallet\<rparr>"
  have g: "getdescriptorinfo sample_env (descriptor_raw waiting_wallet)
       = Inr ''sh(multi(2,[aaaaaaaa/44h/1h/0h]tpubA/0/*,[bbbbbbbb/44h/1h/0h]tpubB/0/*))#checksum''"
    by (simp add: waiting_descriptor_raw) (simp add: sample_env_def)
  have nr: "\<not> ready (wallet ?w)" using waiting_not_ready by simp
  note u = descriptor_unguarded [of sample_env waiting_wallet ?w]
  from u g have d: "descriptor sample_env waiting_wallet
       = Inr ''sh(multi(2,[aaaaaaaa/44h/1h/0h]tpubA/0/*,[bbbbbbbb/44h/1h/0h]tpubB/0/*))#checksum''"
    by blast
  from u nr obtain msg where a: "address sample_env ?w = Some (Inl (JunctionError msg), ?w)"
    by blast
  from address_not_ready [OF nr, of sample_env] a
  have "msg = ''3 signers required, 2 registered''"
    by (simp add: sample_defs)
  with a d g waiting_not_ready show ?thesis by simp
qed

text \<open>
  C5 as stated says \<open>descriptor\<close> fails on every wallet that is not ready. The 2-of-3
  wallet with two signers is not ready, and \<open>descriptor\<close> returns a descriptor for it.
\<close>

theorem descriptor_unguarded_counterexample:
  "\<not> ready waiting_wallet
   \<and> descriptor sample_env waiting_wallet
       = Inr ''sh(multi(2,[aaaaaaaa/44h/1h/0h]tpubA/0/*,[bbbbbbbb/44h/1h/0h]tpubB/0/*))#checksum''"
  using waiting_not_ready
  by (simp add: descriptor_def waiting_descriptor_raw) (simp add: sample_env_def)

subsection \<open>Claim C6: the bounds of creation\<close>

lemma sample_ensure_watchonly:
  "name wl = ''w'' \<Longrightarrow> ensure_watchonly sample_env wl = Inr ()"
  by (simp add: ensure_watchonly_def watchonly_name_def sample_env_def)

text \<open>
  C6. \<open>create\<close> tests \<open>m > n\<close>, then \<open>m < 1\<close>, then \<open>n > 5\<close>; the first test that
  fails raises \<open>JunctionError\<close> with the message that names it, and the store is left as
  it was: no wallet file is written. When no wallet file of that name exists and the node
  lets the watch-only wallet be established, \<open>create\<close> succeeds if and only if
  \<open>1 \<le> m \<le> n \<le> 5\<close>. Whenever it succeeds the bounds hold, the wallet is the fresh one
  and the wallet file holds it.
\<close>

theorem create_bounds:
  \<open>(n' < m' \<longrightarrow>
      create ev st nm m' n'
        = (Inl (JunctionError (''"m" ('' @ str_int m' @ '') must be no larger than "n" (''
                                 @ str_int n' @ '')'')), st))
   \<and> (m' \<le> n' \<and> m' < 1 \<longrightarrow>
      create ev st nm m' n'
        = (Inl (JunctionError (''"m" ('' @ str_int m' @ '') must be larger than 0'')), st))
   \<and> (1 \<le> m' \<and> m' \<le> n' \<and> 5 < n' \<longrightarrow>
      create ev st nm m' n'
        = (Inl (JunctionError (''"n" ('' @ str_int n' @ '') cannot exceed 5'')), st))
   \<and> (disk st (''wallets/'' @ nm @ ''.json'') = None
       \<and> ensure_watchonly ev \<lparr>name = nm, m = m', n = n', signers = [], psbt = None,
                               address_index = 0, export_index = 0\<rparr> = Inr ()
      \<longrightarrow> ((\<exists>wl st'. create ev st nm m' n' = (Inr wl, st')) \<longleftrightarrow> 1 \<le> m' \<and> m' \<le> n' \<and> n' \<le> 5))
   \<and> (create ev st nm m' n' = (Inr wl, st') \<longrightarrow>
        1 \<le> m' \<and> m' \<le> n' \<and> n' \<le> 5
        \<and> wl = \<lparr>name = nm, m = m', n = n', signers = [], psbt = None,
                 address_index = 0, export_index = 0\<rparr>
        \<and> disk st' (wallet_file_path wl) = Some (to_dict ev wl))\<close>
proof (intro conjI impI)
  assume "n' < m'"
  then show \<open>create ev st nm m' n'
        = (Inl (JunctionError (''"m" ('' @ str_int m' @ '') must be no larger than "n" (''
                                 @ str_int n' @ '')'')), st)\<close>
    by (simp add: create_def)
next
  assume "m' \<le> n' \<and> m' < 1"
  then show \<open>create ev st nm m' n'
        = (Inl (JunctionError (''"m" ('' @ str_int m' @ '') must be larger than 0'')), st)\<close>
    by (simp add: create_def)
next
  assume "1 \<le> m' \<and> m' \<le> n' \<and> 5 < n'"
  then show \<open>create ev st nm m' n'
        = (Inl (JunctionError (''"n" ('' @ str_int n' @ '') cannot exceed 5'')), st)\<close>
    by (simp add: create_def)
next
  assume "disk st (''wallets/'' @ nm @ ''.json'') = None
       \<and> ensure_watchonly ev \<lparr>name = nm, m = m', n = n', signers = [], psbt = None,
                               address_index = 0, export_index = 0\<rparr> = Inr ()"
  then show "(\<exists>wl st'. create ev st nm m' n' = (Inr wl, st')) \<longleftrightarrow> 1 \<le> m' \<and> m' \<le> n' \<and> n' \<le> 5"
    by (auto simp: create_def Let_def)
next
  assume c: "create ev st nm m' n' = (Inr wl, st')"
  then show "1 \<le> m'" "m' \<le> n'" "n' \<le> 5"
    by (auto simp: create_def Let_def split: if_splits)
  with c show "wl = \<lparr>name = nm, m = m', n = n', signers = [], psbt = None,
                 address_index = 0, export_index = 0\<rparr>"
    by (auto simp: create_def Let_def split: if_splits sum.splits)
  with c \<open>1 \<le> m'\<close> \<open>m' \<le> n'\<close> \<open>n' \<le> 5\<close>
  show "disk st' (wallet_file_path wl) = Some (to_dict ev wl)"
    by (auto simp: create_def Let_def save_def wallet_file_path_def split: if_splits sum.splits)
qed

text \<open>
  The three failures, at \<open>(3, 2)\<close>, \<open>(0, 0)\<close> and \<open>(6, 6)\<close>, and a 2-of-3 wallet created
  on the sample node.
\<close>

theorem create_bounds_witness:
  \<open>create sample_env empty_store ''w'' 3 2
     = (Inl (JunctionError ''"m" (3) must be no larger than "n" (2)''), empty_store)
   \<and> create sample_env empty_store ''w'' 0 0
       = (Inl (JunctionError ''"m" (0) must be larger than 0''), empty_store)
   \<and> create sample_env empty_store ''w'' 6 6
       = (Inl (JunctionError ''"n" (6) cannot exceed 5''), empty_store)
   \<and> disk empty_store ''wallets/w.json'' = None
   \<and> fst (create sample_env empty_store ''w'' 2 3)
       = Inr \<lparr>name = ''w'', m = 2, n = 3, signers = [], psbt = None,
               address_index = 0, export_index = 0\<rparr>
   \<and> disk (snd (create sample_env empty_store ''w'' 2 3)) ''wallets/w.json''
       = Some (to_dict sample_env \<lparr>name = ''w'', m = 2, n = 3, signers = [], psbt = None,
               address_index = 0, export_index = 0\<rparr>)\<close>
proof -
  have six: "str_int 6 = ''6''" by (simp add: str_int_def str_nat.simps)
  have e: "disk empty_store (''wallets/'' @ ''w'' @ ''.json'') = None
       \<and> ensure_watchonly sample_env \<lparr>name = ''w'', m = 2, n = 3, signers = [], psbt = None,
                               address_index = 0, export_index = 0\<rparr> = Inr ()"
    by (simp add: empty_store_def sample_ensure_watchonly)
  from create_bounds [where m' = 3 and n' = 2 and ev = sample_env and st = empty_store and nm = "''w''"]
  have c1: \<open>create sample_env empty_store ''w'' 3 2
     = (Inl (JunctionError ''"m" (3) must be no larger than "n" (2)''), empty_store)\<close>
    by simp
  from create_bounds [where m' = 0 and n' = 0 and ev = sample_env and st = empty_store and nm = "''w''"]
  have c2: \<open>create sample_env empty_store ''w'' 0 0
       = (Inl (JunctionError ''"m" (0) must be larger than 0''), empty_store)\<close>
    by simp
  from create_bounds [where m' = 6 and n' = 6 and ev = sample_env and st = empty_store and nm = "''w''"]
  have c3: \<open>create sample_env empty_store ''w'' 6 6
       = (Inl (JunctionError ''"n" (6) cannot exceed 5''), empty_store)\<close>
    by (simp add: six)
  from create_bounds [where m' = 2 and n' = 3 and ev = sample_env and st = empty_store
      and nm = "''w''" and wl = undefined and st' = undefined] e
  have "\<exists>wl st'. create sample_env empty_store ''w'' 2 3 = (Inr wl, st')"
    by simp
  then obtain wl st' where c4: "create sample_env empty_store ''w'' 2 3 = (Inr wl, st')"
    by blast
  from create_bounds [where m' = 2 and n' = 3 and ev = sample_env and st = empty_store
      and nm = "''w''" and wl = wl and st' = st'] c4
  have "wl = \<lparr>name = ''w'', m = 2, n = 3, signers = [], psbt = None,
               address_index = 0, export_index = 0\<rparr>
         \<and> disk st' (wallet_file_path wl) = Some (to_dict sample_env wl)"
    by blast
  then have w1: "wl = \<lparr>name = ''w'', m = 2, n = 3, signers = [], psbt = None,
               address_index = 0, export_index = 0\<rparr>"
    and w2: "disk st' (wallet_file_path wl) = Some (to_dict sample_env wl)"
    by blast+
  from w2 have w3: "disk st' ''wallets/w.json''
       = Some (to_dict sample_env \<lparr>name = ''w'', m = 2, n = 3, signers = [], psbt = None,
               address_index = 0, export_index = 0\<rparr>)"
    unfolding w1 by (simp add: wallet_file_path_def)
  from c4 w1 w3 have c5: "fst (create sample_env empty_store ''w'' 2 3)
       = Inr \<lparr>name = ''w'', m = 2, n = 3, signers = [], psbt = None,
               address_index = 0, export_index = 0\<rparr>"
    "disk (snd (create sample_env empty_store ''w'' 2 3)) ''wallets/w.json''
       = Some (to_dict sample_env \<lparr>name = ''w'', m = 2, n = 3, signers = [], psbt = None,
               address_index = 0, export_index = 0\<rparr>)"
    by simp_all
  from c1 c2 c3 c5 e show ?thesis by simp
qed

subsection \<open>Claim C7: the raw descriptor\<close>

text \<open>
  C7, as amended. For every wallet, ready or not, the string sent to the node is
  \<^verbatim>\<open>sh(multi(m,[fp/44h/1h/0h]xpub/0/*,...))\<close>: the threshold in decimal, then one entry
  \<^verbatim>\<open>[fingerprint/44h/1h/0h]xpub/0/*\<close> per signer in registration order, the parts
  joined by commas with no space. The hardened steps of the prefix are written with
  \<open>h\<close>, not with apostrophes. \<open>descriptor\<close> returns what the node answers to it.
\<close>

theorem descriptor_raw_format:
  "descriptor_raw wl
     = ''sh(multi('' @ str_int (m wl) @ '','' @
         join '','' (map (\<lambda>signer. ''['' @ fingerprint signer @ ''/44h/1h/0h]''
                            @ xpub signer @ ''/0/*'') (signers wl)) @ ''))''
   \<and> descriptor ev wl
       = (case getdescriptorinfo ev (descriptor_raw wl) of
            Inl e \<Rightarrow> Inl (raise_rpc e) | Inr checksummed \<Rightarrow> Inr checksummed)"
  by (simp add: descriptor_raw_def descriptor_def)

text \<open>
  C7 as stated gives the prefix as \<^verbatim>\<open>/44'/1'/0'\<close>. The raw descriptor of the ready
  sample wallet is not the string the specification writes, and has no apostrophe
  in it at all.
\<close>

theorem descriptor_raw_counterexample:
  "descriptor_raw sample_wallet
     = ''sh(multi(2,[aaaaaaaa/44h/1h/0h]tpubA/0/*,[bbbbbbbb/44h/1h/0h]tpubB/0/*))''
   \<and> ready sample_wallet
   \<and> descriptor_raw sample_wallet \<noteq> spec_descriptor_raw sample_wallet
   \<and> CHR 0x27 \<notin> set (descriptor_raw sample_wallet)
   \<and> CHR 0x27 \<in> set (spec_descriptor_raw sample_wallet)"
  by (simp add: sample_descriptor_raw)
     (simp add: spec_descriptor_raw_def ready_def sample_defs)

subsection \<open>Claims C8 and C10: signing_complete\<close>

text \<open>
  C8. For a wallet with a PSBT, \<open>signing_complete\<close> returns \<open>True\<close> if and only if the
  PSBT has a first input and the number of partial signatures of that input equals \<open>m\<close>;
  when there is a first input it returns a boolean, the truth of that equation.
\<close>

theorem signing_complete_first_input:
  assumes "psbt wl = Some p"
  shows "(signing_complete wl = Inr True
            \<longleftrightarrow> (\<exists>i rest. inputs p = i # rest \<and> int (card (dom (partial_sigs i))) = m wl))
         \<and> (\<forall>i rest. inputs p = i # rest \<longrightarrow>
               signing_complete wl = Inr (int (card (dom (partial_sigs i))) = m wl))"
  using assms by (cases "inputs p") (auto simp: signing_complete_def)

text \<open>
  A 2-of-2 wallet whose PSBT has two signatures on its first input and none on its
  second, and one whose PSBT has no signature yet.
\<close>

theorem signing_complete_first_input_witness:
  "psbt signed_wallet = Some signed_psbt
   \<and> inputs signed_psbt = [\<lparr>partial_sigs = [''02a'' \<mapsto> ''sigA'', ''03b'' \<mapsto> ''sigB'']\<rparr>,
                            \<lparr>partial_sigs = Map.empty\<rparr>]
   \<and> int (card (dom [''02a'' \<mapsto> ''sigA'', ''03b'' \<mapsto> ''sigB''])) = m signed_wallet
   \<and> signing_complete signed_wallet = Inr True
   \<and> psbt holding_wallet = Some \<lparr>tx = ''cHNidP8B'', inputs = [\<lparr>partial_sigs = Map.empty\<rparr>]\<rparr>
   \<and> int (card (dom (Map.empty :: string \<rightharpoonup> string))) \<noteq> m holding_wallet
   \<and> signing_complete holding_wallet = Inr False"
proof -
  have p: "psbt signed_wallet = Some signed_psbt"
    by (simp add: signed_wallet_def)
  have i: "inputs signed_psbt = [\<lparr>partial_sigs = [''02a'' \<mapsto> ''sigA'', ''03b'' \<mapsto> ''sigB'']\<rparr>,
                            \<lparr>partial_sigs = Map.empty\<rparr>]"
    by (simp add: signed_psbt_def)
  have c: "int (card (dom [''02a'' \<mapsto> ''sigA'', ''03b'' \<mapsto> ''sigB''])) = m signed_wallet"
    by (simp add: signed_wallet_def sample_wallet_def)
  from signing_complete_first_input [OF p] i c
  have t: "signing_complete signed_wallet = Inr True" by simp
  have p': "psbt holding_wallet = Some \<lparr>tx = ''cHNidP8B'', inputs = [\<lparr>partial_sigs = Map.empty\<rparr>]\<rparr>"
    by (simp add: holding_wallet_def)
  have c': "int (card (dom (Map.empty :: string \<rightharpoonup> string))) \<noteq> m holding_wallet"
    by (simp add: holding_wallet_def sample_wallet_def)
  from signing_complete_first_input [OF p'] c'
  have f: "signing_complete holding_wallet = Inr False" by simp
  from p i c t p' c' f show ?thesis by blast
qed

text \<open>
  C10. For a wallet with no PSBT, \<open>signing_complete\<close> returns no boolean: it raises
  \<open>AttributeError\<close>, reading \<open>inputs\<close> of \<open>None\<close>.
\<close>

theorem signing_complete_without_psbt:
  assumes "psbt wl = None"
  shows "(\<exists>msg. signing_complete wl = Inl (AttributeError msg))
         \<and> (\<forall>b. signing_complete wl \<noteq> Inr b)"
  using assms by (simp add: signing_complete_def)

text \<open>The sample wallet has no PSBT.\<close>

theorem signing_complete_without_psbt_witness:
  "psbt sample_wallet = None
   \<and> signing_complete sample_wallet = Inl (AttributeError ''NoneType object has no attribute inputs'')
   \<and> signing_complete sample_wallet \<noteq> Inr True
   \<and> signing_complete sample_wallet \<noteq> Inr False"
proof -
  have n: "psbt sample_wallet = None" by (simp add: sample_wallet_def)
  from signing_complete_without_psbt [OF n]
  have "signing_complete sample_wallet \<noteq> Inr True" "signing_complete sample_wallet \<noteq> Inr False"
    by blast+
  moreover have "signing_complete sample_wallet
       = Inl (AttributeError ''NoneType object has no attribute inputs'')"
    using n by (simp add: signing_complete_def)
  ultimately show ?thesis using n by blast
qed

subsection \<open>Claim C9: the fallback of balances\<close>

lemma count_unspent_folds:
  "count_unspent us (a, b)
     = (foldl (+) a (map amount (filter (\<lambda>u. \<not> confirmations u > 0) us)),
        foldl (+) b (map amount (filter (\<lambda>u. confirmations u > 0) us)))"
  by (induction us arbitrary: a b) simp_all

text \<open>
  C9. When \<open>getbalances\<close> fails and \<open>listunspent\<close> answers with outputs whose
  confirmation counts are not negative (it is asked for a minimum of 0 confirmations),
  \<open>balances\<close> returns the pair of the sum of the amounts of the outputs with exactly 0
  confirmations and the sum of the amounts of all the others, each summed from 0 in the
  order of the list.
\<close>

theorem balances_fallback:
  assumes "getbalances ev = Inl e"
    and "listunspent ev 0 9999999 [] True = Inr us"
    and "\<forall>u \<in> set us. 0 \<le> confirmations u"
  shows "balances ev
           = Inr (foldl (+) 0 (map amount (filter (\<lambda>u. confirmations u = 0) us)),
                  foldl (+) 0 (map amount (filter (\<lambda>u. confirmations u \<noteq> 0) us)))"
proof -
  have "filter (\<lambda>u. \<not> confirmations u > 0) us = filter (\<lambda>u. confirmations u = 0) us"
    using assms(3) by (intro filter_cong) auto
  moreover have "filter (\<lambda>u. confirmations u > 0) us = filter (\<lambda>u. confirmations u \<noteq> 0) us"
    using assms(3) by (intro filter_cong) auto
  ultimately show ?thesis
    using assms(1,2) by (simp add: balances_def count_unspent_folds)
qed

text \<open>The sample node: 5 unconfirmed, 7 confirmed.\<close>

theorem balances_fallback_witness:
  "getbalances sample_env = Inl (JSONRPC ''Method not found'')
   \<and> listunspent sample_env 0 9999999 [] True
       = Inr [\<lparr>confirmations = 0, amount = 5\<rparr>, \<lparr>confirmations = 3, amount = 7\<rparr>]
   \<and> balances sample_env = Inr (5, 7)"
proof -
  have g: "getbalances sample_env = Inl (JSONRPC ''Method not found'')"
    by (simp add: sample_env_def)
  have l: "listunspent sample_env 0 9999999 [] True
       = Inr [\<lparr>confirmations = 0, amount = 5\<rparr>, \<lparr>confirmations = 3, amount = 7::int\<rparr>]"
    by (simp add: sample_env_def)
  have "\<forall>u \<in> set [\<lparr>confirmations = 0, amount = 5\<rparr>, \<lparr>confirmations = 3, amount = 7::int\<rparr>].
          0 \<le> confirmations u"
    by simp
  from balances_fallback [OF g l this] have "balances sample_env = Inr (5, 7)" by simp
  with g l show ?thesis by simp
qed

end
